theory Spec2Isabelle
  imports Main "HOL-Library.Word" "HOL-Library.Char_ord" "HOL-Library.List_Lexorder"
    "HOL-Library.Signed_Division" "HOL-Library.Monad_Syntax"
begin

section \<open>Typeschemes (source/compiler/typeschemes.go)\<close>

text \<open>
  The interface \<open>typeScheme\<close> has six implementations: \<open>simpleType\<close> (a \<open>uint32\<close>),
  \<open>alternateType\<close>, \<open>finiteTupleType\<close> and \<open>listType\<close> (slices of typeschemes),
  \<open>typedTupleType\<close> (a struct whose only field \<open>t\<close> is an \<open>alternateType\<close>) and
  \<open>blingType\<close> (a struct whose only field is the string \<open>tag\<close>).
\<close>

datatype typeScheme =
    SimpleType "32 word"
  | AlternateType "typeScheme list"
  | FiniteTupleType "typeScheme list"
  | TypedTupleType "typeScheme list"
  | BlingType string
  | ListType "typeScheme list"

text \<open>
  The method \<open>compare\<close>, one Go method per implementation, dispatched on the receiver.
  The result is a Go \<open>int\<close>; every value it takes is a difference of two slice lengths or
  of two \<open>uint32\<close> values, so it stays far inside 64 bits and is modelled as \<open>int\<close>.
  \<open>compareElems\<close> is the loop \<open>for i := 0; i < len(t); i++\<close> shared by the slice
  kinds; it is entered only when both slices have the same length.
  In \<open>typedTupleType.compare\<close> the call \<open>t.t.compare(u.t)\<close> is
  \<open>alternateType.compare\<close> on two alternates, written out in place.
\<close>

fun compare :: "typeScheme \<Rightarrow> typeScheme \<Rightarrow> int"
  and compareElems :: "typeScheme list \<Rightarrow> typeScheme list \<Rightarrow> int" where
  "compare (SimpleType t) u =
     (case u of
        SimpleType u' \<Rightarrow> int (unat t) - int (unat u')
      | _ \<Rightarrow> - 1)"
| "compare (AlternateType t) u =
     (case u of
        SimpleType _ \<Rightarrow> 1
      | AlternateType u' \<Rightarrow>
          (let diff = int (length t) - int (length u')
           in if diff \<noteq> 0 then diff else compareElems t u')
      | _ \<Rightarrow> - 1)"
| "compare (FiniteTupleType t) u =
     (case u of
        SimpleType _ \<Rightarrow> 1
      | AlternateType _ \<Rightarrow> 1
      | FiniteTupleType u' \<Rightarrow>
          (let diff = int (length t) - int (length u')
           in if diff \<noteq> 0 then diff else compareElems t u')
      | _ \<Rightarrow> - 1)"
| "compare (TypedTupleType t) u =
     (case u of
        SimpleType _ \<Rightarrow> 1
      | FiniteTupleType _ \<Rightarrow> 1
      | TypedTupleType u' \<Rightarrow>
          (let diff = int (length t) - int (length u')
           in if diff \<noteq> 0 then diff else compareElems t u')
      | _ \<Rightarrow> - 1)"
| "compare (BlingType tag) u =
     (case u of
        SimpleType _ \<Rightarrow> 1
      | FiniteTupleType _ \<Rightarrow> 1
      | TypedTupleType _ \<Rightarrow> 1
      | BlingType tag' \<Rightarrow> (if tag < tag' then - 1 else if tag = tag' then 0 else 1)
      | _ \<Rightarrow> - 1)"
| "compare (ListType t) u =
     (case u of
        SimpleType _ \<Rightarrow> 1
      | FiniteTupleType _ \<Rightarrow> 1
      | TypedTupleType _ \<Rightarrow> 1
      | BlingType _ \<Rightarrow> 1
      | ListType u' \<Rightarrow>
          (let diff = int (length t) - int (length u')
           in if diff \<noteq> 0 then diff else compareElems t u')
      | _ \<Rightarrow> - 1)"
| "compareElems (x # xs) (y # ys) =
     (let diff = compare x y in if diff \<noteq> 0 then diff else compareElems xs ys)"
| "compareElems [] ys = 0"
| "compareElems (x # xs) [] = 0"

text \<open>
  \<open>lengths\<close>: the set of possible tuple lengths of a typescheme. \<open>set.Set[int]\<close> is a
  Go map used as a set, here \<open>int set\<close>. The type switch has no case for \<open>blingType\<close>
  and \<open>listType\<close>: control reaches \<open>panic("We shouldn't be here!")\<close>, here \<open>None\<close>.
  \<open>lengthsAlt result vs\<close> is the loop of the \<open>alternateType\<close> case, entered with the
  set accumulated so far and the members still to visit; \<open>lengthsFinite\<close> is the
  \<open>finiteTupleType\<close> case, which recurses on the slice \<open>t[1:]\<close> (again a
  \<open>finiteTupleType\<close>).
\<close>

fun lengths :: "typeScheme \<Rightarrow> int set option"
  and lengthsAlt :: "int set \<Rightarrow> typeScheme list \<Rightarrow> int set option"
  and lengthsFinite :: "typeScheme list \<Rightarrow> int set option" where
  "lengths (SimpleType t) = Some {1}"
| "lengths (TypedTupleType t) = Some {- 1}"
| "lengths (AlternateType ts) = lengthsAlt {} ts"
| "lengths (FiniteTupleType ts) = lengthsFinite ts"
| "lengths (BlingType tag) = None"
| "lengths (ListType ts) = None"
| "lengthsAlt result [] = Some result"
| "lengthsAlt result (v # vs) =
     (case lengths v of
        None \<Rightarrow> None
      | Some newSet \<Rightarrow>
          (let result' = result \<union> newSet
           in if - 1 \<in> result' then Some result' else lengthsAlt result' vs))"
| "lengthsFinite [] = Some {0}"
| "lengthsFinite (t # ts) =
     (case lengths t of
        None \<Rightarrow> None
      | Some thisColumnLengths \<Rightarrow>
          (case lengthsFinite ts of
             None \<Rightarrow> None
           | Some remainingColumnLengths \<Rightarrow>
               Some ((\<lambda>(j, k). j + k) ` (thisColumnLengths \<times> remainingColumnLengths))))"


text \<open>
  Auxiliary notions for stating what \<open>lengths\<close> computes: the length set of a scheme
  (empty where \<open>lengths\<close> panics), schemes whose length set is defined and free of
  \<open>-1\<close>, and schemes built from simple schemes, typed tuples, finite tuples and
  alternates with at least one member.
\<close>

definition lengthsOf :: "typeScheme \<Rightarrow> int set" where
  "lengthsOf t = (case lengths t of None \<Rightarrow> {} | Some S \<Rightarrow> S)"

definition definite :: "typeScheme \<Rightarrow> bool" where
  "definite t = (case lengths t of None \<Rightarrow> False | Some S \<Rightarrow> - 1 \<notin> S)"

fun proper :: "typeScheme \<Rightarrow> bool" where
  "proper (SimpleType t) = True"
| "proper (TypedTupleType a) = True"
| "proper (AlternateType ts) = (ts \<noteq> [] \<and> (\<forall>v \<in> set ts. proper v))"
| "proper (FiniteTupleType ts) = (\<forall>v \<in> set ts. proper v)"
| "proper (BlingType tag) = False"
| "proper (ListType ts) = False"


section \<open>Values and the machine state (source/vm/vm.go)\<close>

text \<open>
  A \<open>values.Value\<close> is a struct of a tag \<open>T\<close> (a \<open>values.ValueType\<close>, converted
  from and to \<open>uint32\<close> operands) and a payload \<open>V\<close> of Go type \<open>any\<close>. The payload
  is modelled as one constructor per dynamic type that \<open>Run\<close> asserts or stores; a type
  assertion \<open>.V.(X)\<close> on another constructor is a panic.
  Go's \<open>int\<close> is taken as 64 bits wide. \<open>float64\<close> is kept as its bit pattern and every
  operation on it is a parameter (record \<open>host\<close> below).
  Pointers are addresses into stores: a \<open>*Vm\<close> is an index into the list of machines,
  a \<open>*object.Error\<close> an index into the list of error objects, and the backing array of a
  \<open>Captures\<close> slice an index into the list of capture arrays (\<open>None\<close> is the nil
  slice). The slices \<open>[]values.Value\<close> of tuples, pairs and structs are modelled by their
  contents, and every machine has a register file of its own.
\<close>

type_synonym valueType = "32 word"
type_synonym float64 = "64 word"

text \<open>A \<open>*token.Token\<close>; the struct is declared outside src/, a token is identified by a number.\<close>

type_synonym token = nat

record lambda =
  Mc :: nat
  ExtTop :: "32 word"
  PrmTop :: "32 word"
  Dest :: "32 word"
  LocToCall :: "32 word"
  Captures :: "nat option"

datatype payload =
    NilV
  | IntV "64 word"
  | BoolV bool
  | StringV string
  | FloatV float64
  | Uint32V "32 word"
  | Uint32sV "32 word list"
  | TypeV valueType
  | ValuesV "Value list"
  | VectorV "Value list"
  | MapV "(Value \<times> Value) list"
  | SetV "Value list"
  | ErrorV nat
  | LambdaV lambda
and Value = Value (T: valueType) (V: payload)

text \<open>
  The tags. \<open>values.go\<close> of package \<open>values\<close> is not under src/; the numbering is the one
  of the table \<open>TypeNames\<close> in \<open>BlankVm\<close>, which the source cross-references with it.
  The tags \<open>INT\<close> and \<open>TYPE\<close> are written \<open>INT'\<close> and \<open>TYPE'\<close>.
\<close>

definition UNDEFINED_VALUE :: valueType where "UNDEFINED_VALUE = 0"
definition INT_ARRAY :: valueType where "INT_ARRAY = 1"
definition THUNK :: valueType where "THUNK = 2"
definition CREATED_LOCAL_CONSTANT :: valueType where "CREATED_LOCAL_CONSTANT = 3"
definition TUPLE :: valueType where "TUPLE = 4"
definition ERROR :: valueType where "ERROR = 5"
definition UNSAT :: valueType where "UNSAT = 6"
definition REF :: valueType where "REF = 7"
definition NULL :: valueType where "NULL = 8"
definition INT' :: valueType where "INT' = 9"
definition BOOL :: valueType where "BOOL = 10"
definition STRING :: valueType where "STRING = 11"
definition FLOAT :: valueType where "FLOAT = 12"
definition TYPE' :: valueType where "TYPE' = 13"
definition FUNC :: valueType where "FUNC = 14"
definition PAIR :: valueType where "PAIR = 15"
definition LIST :: valueType where "LIST = 16"
definition MAP :: valueType where "MAP = 17"
definition SET :: valueType where "SET = 18"
definition LABEL :: valueType where "LABEL = 19"
definition LB_ENUMS :: valueType where "LB_ENUMS = 20"

lemmas tag_defs =
  UNDEFINED_VALUE_def INT_ARRAY_def THUNK_def CREATED_LOCAL_CONSTANT_def TUPLE_def ERROR_def
  UNSAT_def REF_def NULL_def INT'_def BOOL_def STRING_def FLOAT_def TYPE'_def FUNC_def PAIR_def
  LIST_def MAP_def SET_def LABEL_def LB_ENUMS_def

definition FALSE :: Value where "FALSE = Value BOOL (BoolV False)"
definition TRUE :: Value where "TRUE = Value BOOL (BoolV True)"
definition U_OBJ :: Value where "U_OBJ = Value UNSAT NilV"
definition ONE :: Value where "ONE = Value INT' (IntV 1)"

definition CONSTANTS :: "Value list" where
  "CONSTANTS = [FALSE, TRUE, U_OBJ, ONE]"

definition DUMMY :: "64 word" where "DUMMY = 4294967295"

text \<open>
  Modelled from the spec: \<open>object.Error\<close> is not under src/. The fields are those
  \<open>vm.go\<close> reads and writes (\<open>ErrorId\<close>, \<open>Message\<close>, \<open>Token\<close>, \<open>Args\<close>) and the
  trace that \<open>Adtk\<close> extends. \<open>AddToTrace\<close> has a pointer receiver and no result that
  \<open>Run\<close> uses; following the spec it appends the token to the trace of the object.
\<close>

record error =
  ErrorId :: string
  Message :: string
  Token :: token
  ErrorArgs :: "string list"
  Trace :: "token list"

definition AddToTrace :: "error \<Rightarrow> token \<Rightarrow> error" where
  "AddToTrace e tok = e\<lparr>Trace := Trace e @ [tok]\<rparr>"

text \<open>
  The opcodes are the cases of the \<open>switch\<close> in \<open>Run\<close>; the declaration of the type
  \<open>Opcode\<close> is not under src/, and \<open>Unhandled\<close> stands for any opcode that reaches
  the \<open>default\<close> branch.
\<close>

datatype (plugins only: size) opcode =
    Addf | Addi | Adds | Adtk | Andb | Asgm | Call | CalT | Cc11 | Cc1T | CcT1 | CcTT | Ccxx
  | Cv1T | CvTT | Divf | Divi | Dofn | Dref | Equb | Equf | Equi | Equs | Flti | Flts | Gtef
  | Gtei | Gthf | Gthi | Halt | Idfn | Intf | Ints | IdxL | Idxp | Idxs | Idxt | IdxT | IxTn
  | IxZl | IxZn | Jmp | Jsr | KeyM | KeyZ | LenL | LenM | Lens | LenS | LenT | List | Litx
  | Mker | Mkfn | Mkpr | Mkst | Mkmp | Modi | Mulf | Muli | Negf | Negi | Notb | Orb | QlnT
  | Qsng | QsnQ | Qtru | Qtyp | Ret | Strc | Strx | Subf | Subi | Thnk | TupL | Typx | Untk
  | Unhandled

record operation =
  Opcode :: opcode
  Args :: "32 word list"

record lambdaFactory =
  Model :: lambda
  ExtMem :: "32 word list"
  Size :: "32 word"

text \<open>
  The struct \<open>Vm\<close>. \<open>StructResolve\<close> holds a \<open>MapResolver\<close>, a slice of Go maps from
  label number to field number, each map read as an association list.
\<close>

record vm =
  Mem :: "Value list"
  callstack :: "32 word list"
  Code :: "operation list"
  StructResolve :: "(64 word \<times> 64 word) list list"
  Ub_enums :: valueType
  TypeNames :: "string list"
  StructLabels :: "64 word list list"
  Enums :: "string list list"
  Labels :: "string list"
  Tokens :: "token list"
  LambdaFactories :: "lambdaFactory list"

text \<open>The stores: every machine, error object and capture array that a pointer can reach.\<close>

record world =
  vms :: "vm list"
  errors :: "error list"
  captures :: "Value list list"

text \<open>
  What \<open>Run\<close> takes from outside the repository and from files that are not under src/:
  the arithmetic of \<open>float64\<close>, the conversions of package \<open>strconv\<close>, and the
  stringification \<open>vm.describe\<close>, whose text depends on \<open>strconv\<close>, \<open>text\<close> and
  \<open>object\<close> (\<open>None\<close> is its panic).
\<close>

record host =
  fadd :: "float64 \<Rightarrow> float64 \<Rightarrow> float64"
  fsub :: "float64 \<Rightarrow> float64 \<Rightarrow> float64"
  fmul :: "float64 \<Rightarrow> float64 \<Rightarrow> float64"
  fdiv :: "float64 \<Rightarrow> float64 \<Rightarrow> float64"
  fneg :: "float64 \<Rightarrow> float64"
  feq :: "float64 \<Rightarrow> float64 \<Rightarrow> bool"
  fge :: "float64 \<Rightarrow> float64 \<Rightarrow> bool"
  fgt :: "float64 \<Rightarrow> float64 \<Rightarrow> bool"
  float_of_int :: "64 word \<Rightarrow> float64"
  int_of_float :: "float64 \<Rightarrow> 64 word"
  ParseFloat :: "string \<Rightarrow> float64 option"
  Atoi :: "string \<Rightarrow> 64 word option"
  describe :: "world \<Rightarrow> nat \<Rightarrow> Value \<Rightarrow> string option"

section \<open>Registers, operands and type assertions\<close>

text \<open>
  An index expression \<open>xs[i]\<close> of Go panics outside \<open>0 \<le> i < len(xs)\<close>; a panic is
  \<open>None\<close>. \<open>index\<close> takes the index as a natural number (a \<open>uint32\<close> read by
  \<open>unat\<close>), \<open>index_int\<close> as a Go \<open>int\<close>.
\<close>

definition index :: "'a list \<Rightarrow> nat \<Rightarrow> 'a option" where
  "index xs i = (if i < length xs then Some (xs ! i) else None)"

definition index_int :: "'a list \<Rightarrow> 64 word \<Rightarrow> 'a option" where
  "index_int xs i =
     (if 0 \<le> sint i \<and> sint i < int (length xs) then Some (xs ! nat (sint i)) else None)"

definition arg :: "32 word list \<Rightarrow> nat \<Rightarrow> 32 word option" where
  "arg args i = index args i"

text \<open>\<open>vm.Mem[a]\<close> read and written on the machine at address \<open>v\<close>.\<close>

definition load :: "world \<Rightarrow> nat \<Rightarrow> 32 word \<Rightarrow> Value option" where
  "load w v a = do { m \<leftarrow> index (vms w) v; index (Mem m) (unat a) }"

definition store_at :: "world \<Rightarrow> nat \<Rightarrow> nat \<Rightarrow> Value \<Rightarrow> world option" where
  "store_at w v i x =
     do { m \<leftarrow> index (vms w) v;
          if i < length (Mem m)
          then Some (w\<lparr>vms := (vms w)[v := m\<lparr>Mem := (Mem m)[i := x]\<rparr>]\<rparr>)
          else None }"

definition store :: "world \<Rightarrow> nat \<Rightarrow> 32 word \<Rightarrow> Value \<Rightarrow> world option" where
  "store w v a x = store_at w v (unat a) x"

fun load_all :: "world \<Rightarrow> nat \<Rightarrow> 32 word list \<Rightarrow> Value list option" where
  "load_all w v [] = Some []"
| "load_all w v (a # as) = do { x \<leftarrow> load w v a; xs \<leftarrow> load_all w v as; Some (x # xs) }"

text \<open>\<open>vm.callstack = append(vm.callstack, loc)\<close>.\<close>

definition push :: "world \<Rightarrow> nat \<Rightarrow> 32 word \<Rightarrow> world option" where
  "push w v loc =
     do { m \<leftarrow> index (vms w) v;
          Some (w\<lparr>vms := (vms w)[v := m\<lparr>callstack := callstack m @ [loc]\<rparr>]\<rparr>) }"

text \<open>\<open>That()\<close> is \<open>uint32(len(vm.Mem) - 1)\<close>, which wraps on an empty register file.\<close>

definition That :: "vm \<Rightarrow> 32 word" where
  "That m = of_nat (length (Mem m)) - 1"

definition MemTop :: "vm \<Rightarrow> 32 word" where
  "MemTop m = of_nat (length (Mem m))"

definition CodeTop :: "vm \<Rightarrow> 32 word" where
  "CodeTop m = of_nat (length (Code m))"

definition TokenTop :: "vm \<Rightarrow> 32 word" where
  "TokenTop m = of_nat (length (Tokens m))"

definition LfTop :: "vm \<Rightarrow> 32 word" where
  "LfTop m = of_nat (length (LambdaFactories m))"

text \<open>The type assertions \<open>.V.(X)\<close>.\<close>

definition asInt :: "Value \<Rightarrow> 64 word option" where
  "asInt x = (case V x of IntV i \<Rightarrow> Some i | _ \<Rightarrow> None)"

definition asBool :: "Value \<Rightarrow> bool option" where
  "asBool x = (case V x of BoolV b \<Rightarrow> Some b | _ \<Rightarrow> None)"

definition asString :: "Value \<Rightarrow> string option" where
  "asString x = (case V x of StringV s \<Rightarrow> Some s | _ \<Rightarrow> None)"

definition asFloat :: "Value \<Rightarrow> float64 option" where
  "asFloat x = (case V x of FloatV f \<Rightarrow> Some f | _ \<Rightarrow> None)"

definition asUint32 :: "Value \<Rightarrow> 32 word option" where
  "asUint32 x = (case V x of Uint32V a \<Rightarrow> Some a | _ \<Rightarrow> None)"

definition asUint32s :: "Value \<Rightarrow> 32 word list option" where
  "asUint32s x = (case V x of Uint32sV as \<Rightarrow> Some as | _ \<Rightarrow> None)"

definition asType :: "Value \<Rightarrow> valueType option" where
  "asType x = (case V x of TypeV t \<Rightarrow> Some t | _ \<Rightarrow> None)"

definition asValues :: "Value \<Rightarrow> Value list option" where
  "asValues x = (case V x of ValuesV xs \<Rightarrow> Some xs | _ \<Rightarrow> None)"

definition asVector :: "Value \<Rightarrow> Value list option" where
  "asVector x = (case V x of VectorV xs \<Rightarrow> Some xs | _ \<Rightarrow> None)"

definition asMap :: "Value \<Rightarrow> (Value \<times> Value) list option" where
  "asMap x = (case V x of MapV kvs \<Rightarrow> Some kvs | _ \<Rightarrow> None)"

definition asSet :: "Value \<Rightarrow> Value list option" where
  "asSet x = (case V x of SetV xs \<Rightarrow> Some xs | _ \<Rightarrow> None)"

definition asError :: "Value \<Rightarrow> nat option" where
  "asError x = (case V x of ErrorV e \<Rightarrow> Some e | _ \<Rightarrow> None)"

definition asLambda :: "Value \<Rightarrow> lambda option" where
  "asLambda x = (case V x of LambdaV l \<Rightarrow> Some l | _ \<Rightarrow> None)"

text \<open>
  Modelled from the spec: \<open>values.Set\<close> and \<open>values.Map\<close> are not under src/. A set is
  a persistent set of values, kept as the list of its distinct members; a map is an
  insertion-ordered association keyed by value, and \<open>AsVector\<close> (the opcode \<open>KeyM\<close>)
  lists its keys.
\<close>

definition setAdd :: "Value list \<Rightarrow> Value \<Rightarrow> Value list" where
  "setAdd s x = (if x \<in> set s then s else s @ [x])"

fun mapSet :: "(Value \<times> Value) list \<Rightarrow> Value \<Rightarrow> Value \<Rightarrow> (Value \<times> Value) list" where
  "mapSet [] k x = [(k, x)]"
| "mapSet (p # ps) k x = (if fst p = k then (k, x) # ps else p # mapSet ps k x)"

definition AsVector :: "(Value \<times> Value) list \<Rightarrow> Value list" where
  "AsVector kvs = map fst kvs"

text \<open>
  \<open>MapResolver.Resolve\<close>: \<open>mr[structNumber]\<close> panics out of range; a label that the map
  lacks gives \<open>-1\<close>.
\<close>

definition Resolve :: "(64 word \<times> 64 word) list list \<Rightarrow> nat \<Rightarrow> 64 word \<Rightarrow> 64 word option" where
  "Resolve mr structNumber labelNumber =
     do { fields \<leftarrow> index mr structNumber;
          Some (case map_of fields labelNumber of Some fieldNo \<Rightarrow> fieldNo | None \<Rightarrow> - 1) }"

text \<open>
  \<open>string(str[ix])\<close> converts one byte, as a rune, to its UTF-8 encoding: one byte below
  128, two bytes from 128 on.
\<close>

definition string_of_byte :: "char \<Rightarrow> string" where
  "string_of_byte c =
     (let n = (of_char c :: nat)
      in if n < 128 then [c] else [char_of (192 + n div 64), char_of (128 + n mod 64)])"

text \<open>
  The admissibility test of \<open>Mkst\<close> and \<open>Mkmp\<close>:
  \<open>(values.NULL <= v.T && v.T < values.PAIR) || (values.LB_ENUMS <= v.T && v.T < vm.Ub_enums)\<close>.
\<close>

definition admissible :: "vm \<Rightarrow> Value \<Rightarrow> bool" where
  "admissible m x = ((NULL \<le> T x \<and> T x < PAIR) \<or> (LB_ENUMS \<le> T x \<and> T x < Ub_enums m))"

text \<open>
  Integer division and remainder of Go truncate towards zero and wrap at the most
  negative dividend; a zero divisor is a run-time panic of Go itself.
\<close>

definition go_div :: "64 word \<Rightarrow> 64 word \<Rightarrow> 64 word option" where
  "go_div a b = (if b = 0 then None else Some (word_of_int (sint a sdiv sint b)))"

definition go_mod :: "64 word \<Rightarrow> 64 word \<Rightarrow> 64 word option" where
  "go_mod a b = (if b = 0 then None else Some (word_of_int (sint a smod sint b)))"

section \<open>The cases of \<open>Run\<close>\<close>

text \<open>
  The common shapes: \<open>vm.Mem[args[0]] = f(vm.Mem[args[1]], vm.Mem[args[2]])\<close> and
  \<open>vm.Mem[args[0]] = f(vm.Mem[args[1]])\<close>, where \<open>f\<close> panics when a type assertion
  fails.
\<close>

definition op3 :: "(Value \<Rightarrow> Value \<Rightarrow> Value option) \<Rightarrow> world \<Rightarrow> nat \<Rightarrow> 32 word list \<Rightarrow> world option" where
  "op3 f w v args =
     do { d \<leftarrow> arg args 0; a \<leftarrow> arg args 1; b \<leftarrow> arg args 2;
          x \<leftarrow> load w v a; y \<leftarrow> load w v b; r \<leftarrow> f x y; store w v d r }"

definition op2 :: "(Value \<Rightarrow> Value option) \<Rightarrow> world \<Rightarrow> nat \<Rightarrow> 32 word list \<Rightarrow> world option" where
  "op2 f w v args =
     do { d \<leftarrow> arg args 0; a \<leftarrow> arg args 1; x \<leftarrow> load w v a; r \<leftarrow> f x; store w v d r }"

definition ints :: "(64 word \<Rightarrow> 64 word \<Rightarrow> Value option) \<Rightarrow> Value \<Rightarrow> Value \<Rightarrow> Value option" where
  "ints f x y = do { i \<leftarrow> asInt x; j \<leftarrow> asInt y; f i j }"

definition floats :: "(float64 \<Rightarrow> float64 \<Rightarrow> Value) \<Rightarrow> Value \<Rightarrow> Value \<Rightarrow> Value option" where
  "floats f x y = do { a \<leftarrow> asFloat x; b \<leftarrow> asFloat y; Some (f a b) }"

definition bools :: "(bool \<Rightarrow> bool \<Rightarrow> Value) \<Rightarrow> Value \<Rightarrow> Value \<Rightarrow> Value option" where
  "bools f x y = do { a \<leftarrow> asBool x; b \<leftarrow> asBool y; Some (f a b) }"

definition strings :: "(string \<Rightarrow> string \<Rightarrow> Value) \<Rightarrow> Value \<Rightarrow> Value \<Rightarrow> Value option" where
  "strings f x y = do { a \<leftarrow> asString x; b \<leftarrow> asString y; Some (f a b) }"

text \<open>
  \<open>Adtk\<close>: the value is copied from \<open>args[1]\<close> to \<open>args[0]\<close>, its payload is asserted to
  be a \<open>*object.Error\<close>, and \<open>AddToTrace\<close> is called on the object behind that pointer.
\<close>

definition op_Adtk :: "world \<Rightarrow> nat \<Rightarrow> 32 word list \<Rightarrow> world option" where
  "op_Adtk w v args =
     do { d \<leftarrow> arg args 0; s \<leftarrow> arg args 1; x \<leftarrow> load w v s; w1 \<leftarrow> store w v d x;
          y \<leftarrow> load w1 v d; e \<leftarrow> asError y;
          t \<leftarrow> arg args 2; m \<leftarrow> index (vms w1) v; tok \<leftarrow> index (Tokens m) (unat t);
          ob \<leftarrow> index (errors w1) e;
          Some (w1\<lparr>errors := (errors w1)[e := AddToTrace ob tok]\<rparr>) }"

text \<open>
  \<open>Call\<close>: the loop \<open>for i := args[1]; i < args[2]; i++\<close> runs
  \<open>unat args[2] - unat args[1]\<close> times; \<open>3+i-offset\<close> is \<open>uint32\<close> arithmetic.
\<close>

fun call_loop :: "world \<Rightarrow> nat \<Rightarrow> 32 word list \<Rightarrow> 32 word \<Rightarrow> 32 word \<Rightarrow> nat \<Rightarrow> world option" where
  "call_loop w v args offset i 0 = Some w"
| "call_loop w v args offset i (Suc n) =
     do { a \<leftarrow> arg args (unat (3 + i - offset)); x \<leftarrow> load w v a; w' \<leftarrow> store w v i x;
          call_loop w' v args offset (i + 1) n }"

definition op_Call :: "world \<Rightarrow> nat \<Rightarrow> 32 word \<Rightarrow> 32 word list \<Rightarrow> (world \<times> 32 word) option" where
  "op_Call w v loc args =
     do { offset \<leftarrow> arg args 1; hi \<leftarrow> arg args 2;
          w1 \<leftarrow> call_loop w v args offset offset (unat hi - unat offset);
          w2 \<leftarrow> push w1 v loc; target \<leftarrow> arg args 0; Some (w2, target) }"

text \<open>
  \<open>CalT\<close>: \<open>j\<close> runs from 3 over the remaining operands. The variable \<open>tplpt\<close> is
  declared and never assigned, so it is 0 in every round: \<open>tplpt <= len(tupleList)\<close>
  holds and \<open>tupleList[tplpt]\<close> is \<open>tupleList[0]\<close>, a panic on an empty list.
  \<open>vm.Mem[...].V = tupleVal\<close> replaces the payload and keeps the tag.
\<close>

fun calT_loop :: "world \<Rightarrow> nat \<Rightarrow> 32 word \<Rightarrow> 32 word list \<Rightarrow> bool \<Rightarrow> nat \<Rightarrow> 32 word list \<Rightarrow> world option" where
  "calT_loop w v base tupleList tupleTime j [] = Some w"
| "calT_loop w v base tupleList tupleTime j (aj # rest) =
     do { t0 \<leftarrow> index tupleList 0;
          (w1, tupleTime1) \<leftarrow>
             (if j - 3 = unat t0
              then do { w' \<leftarrow> store w v (base + t0) (Value TUPLE (ValuesV [])); Some (w', True) }
              else Some (w, tupleTime));
          w2 \<leftarrow>
             (if tupleTime1
              then do { cur \<leftarrow> load w1 v (base + t0); tupleVal \<leftarrow> asValues cur;
                        x \<leftarrow> load w1 v aj;
                        store w1 v (base + t0) (Value (T cur) (ValuesV (tupleVal @ [x]))) }
              else do { x \<leftarrow> load w1 v aj; store_at w1 v (j - 3 + unat base) x });
          calT_loop w2 v base tupleList tupleTime1 (Suc j) rest }"

definition op_CalT :: "world \<Rightarrow> nat \<Rightarrow> 32 word \<Rightarrow> 32 word list \<Rightarrow> (world \<times> 32 word) option" where
  "op_CalT w v loc args =
     do { base \<leftarrow> arg args 1; a2 \<leftarrow> arg args 2; tl \<leftarrow> load w v a2; tupleList \<leftarrow> asUint32s tl;
          w1 \<leftarrow> calT_loop w v base tupleList False 3 (drop 3 args);
          w2 \<leftarrow> push w1 v loc; target \<leftarrow> arg args 0; Some (w2, target) }"

text \<open>The four concatenations and \<open>Ccxx\<close>, which chooses among them by the tags.\<close>

definition cc11 :: "Value \<Rightarrow> Value \<Rightarrow> Value option" where
  "cc11 x y = Some (Value TUPLE (ValuesV [x, y]))"

definition cc1T :: "Value \<Rightarrow> Value \<Rightarrow> Value option" where
  "cc1T x y = do { ys \<leftarrow> asValues y; Some (Value TUPLE (ValuesV ([x] @ ys))) }"

definition ccT1 :: "Value \<Rightarrow> Value \<Rightarrow> Value option" where
  "ccT1 x y = do { xs \<leftarrow> asValues x; Some (Value TUPLE (ValuesV (xs @ [y]))) }"

definition ccTT :: "Value \<Rightarrow> Value \<Rightarrow> Value option" where
  "ccTT x y = do { xs \<leftarrow> asValues x; Some (Value TUPLE (ValuesV (xs @ [y]))) }"

definition ccxx :: "Value \<Rightarrow> Value \<Rightarrow> Value option" where
  "ccxx x y =
     (if T x = TUPLE
      then (if T y = TUPLE
            then do { xs \<leftarrow> asValues x; Some (Value TUPLE (ValuesV (xs @ [y]))) }
            else do { xs \<leftarrow> asValues x; Some (Value TUPLE (ValuesV (xs @ [y]))) })
      else (if T y = TUPLE
            then do { ys \<leftarrow> asValues y; Some (Value TUPLE (ValuesV ([x] @ ys))) }
            else Some (Value TUPLE (ValuesV [x, y]))))"

text \<open>
  \<open>CvTT\<close>: \<open>make([]values.Value, len(args)-1)\<close> panics on no operand at all.
  \<open>Strc\<close>: \<open>make(..., 0, len(args)-2)\<close> panics on fewer than two operands.
\<close>

definition op_CvTT :: "world \<Rightarrow> nat \<Rightarrow> 32 word list \<Rightarrow> world option" where
  "op_CvTT w v args =
     (if args = [] then None
      else do { slice \<leftarrow> load_all w v (tl args); d \<leftarrow> arg args 0;
                store w v d (Value TUPLE (ValuesV slice)) })"

definition op_Strc :: "world \<Rightarrow> nat \<Rightarrow> 32 word list \<Rightarrow> world option" where
  "op_Strc w v args =
     (if length args < 2 then None
      else do { fields \<leftarrow> load_all w v (drop 2 args); d \<leftarrow> arg args 0; t \<leftarrow> arg args 1;
                store w v d (Value t (ValuesV fields)) })"

text \<open>
  The indexing opcodes: the value of a fallback register is written when the index is
  out of range. In \<open>Idxt\<close> the test \<open>0 <= ix && ix < len(vm.Enums[...])\<close> reads
  \<open>vm.Enums\<close> only when \<open>0 <= ix\<close> holds.
\<close>

definition op_IdxL :: "world \<Rightarrow> nat \<Rightarrow> 32 word list \<Rightarrow> world option" where
  "op_IdxL w v args =
     do { d \<leftarrow> arg args 0; a1 \<leftarrow> arg args 1; a2 \<leftarrow> arg args 2;
          x \<leftarrow> load w v a1; vec \<leftarrow> asVector x; y \<leftarrow> load w v a2; ix \<leftarrow> asInt y;
          (case index_int vec ix of
             None \<Rightarrow> do { a3 \<leftarrow> arg args 3; f \<leftarrow> load w v a3; store w v d f }
           | Some val \<Rightarrow> store w v d val) }"

definition op_Idxp :: "world \<Rightarrow> nat \<Rightarrow> 32 word list \<Rightarrow> world option" where
  "op_Idxp w v args =
     do { d \<leftarrow> arg args 0; a1 \<leftarrow> arg args 1; a2 \<leftarrow> arg args 2;
          x \<leftarrow> load w v a1; pair \<leftarrow> asValues x; y \<leftarrow> load w v a2; ix \<leftarrow> asInt y;
          if ix = 0 \<or> ix = 1
          then do { val \<leftarrow> index_int pair ix; store w v d val }
          else do { a3 \<leftarrow> arg args 3; f \<leftarrow> load w v a3; store w v d f } }"

definition op_Idxs :: "world \<Rightarrow> nat \<Rightarrow> 32 word list \<Rightarrow> world option" where
  "op_Idxs w v args =
     do { d \<leftarrow> arg args 0; a1 \<leftarrow> arg args 1; a2 \<leftarrow> arg args 2;
          x \<leftarrow> load w v a1; str \<leftarrow> asString x; y \<leftarrow> load w v a2; ix \<leftarrow> asInt y;
          (case index_int str ix of
             Some c \<Rightarrow> store w v d (Value STRING (StringV (string_of_byte c)))
           | None \<Rightarrow> do { a3 \<leftarrow> arg args 3; f \<leftarrow> load w v a3; store w v d f }) }"

definition op_Idxt :: "world \<Rightarrow> nat \<Rightarrow> 32 word list \<Rightarrow> world option" where
  "op_Idxt w v args =
     do { d \<leftarrow> arg args 0; a1 \<leftarrow> arg args 1; m \<leftarrow> index (vms w) v;
          x \<leftarrow> load w v a1; typ \<leftarrow> asType x;
          if typ < LB_ENUMS \<or> Ub_enums m \<le> typ
          then do { a3 \<leftarrow> arg args 3; f \<leftarrow> load w v a3; store w v d f }
          else do { a2 \<leftarrow> arg args 2; y \<leftarrow> load w v a2; ix \<leftarrow> asInt y;
                    ok \<leftarrow> (if 0 \<le> sint ix
                          then do { enum \<leftarrow> index (Enums m) (unat (typ - LB_ENUMS));
                                    Some (sint ix < int (length enum)) }
                          else Some False);
                    if ok
                    then store w v d (Value typ (IntV ix))
                    else do { a4 \<leftarrow> arg args 4; f \<leftarrow> load w v a4; store w v d f } } }"

definition op_IdxT :: "world \<Rightarrow> nat \<Rightarrow> 32 word list \<Rightarrow> world option" where
  "op_IdxT w v args =
     do { d \<leftarrow> arg args 0; a1 \<leftarrow> arg args 1; a2 \<leftarrow> arg args 2;
          x \<leftarrow> load w v a1; tuple \<leftarrow> asValues x; y \<leftarrow> load w v a2; ix \<leftarrow> asInt y;
          (case index_int tuple ix of
             Some val \<Rightarrow> store w v d val
           | None \<Rightarrow> do { a3 \<leftarrow> arg args 3; f \<leftarrow> load w v a3; store w v d f }) }"

text \<open>\<open>IxTn\<close> and \<open>IxZn\<close>: \<open>vm.Mem[args[1]].V.([]values.Value)[args[2]]\<close>.\<close>

definition op_IxTn :: "world \<Rightarrow> nat \<Rightarrow> 32 word list \<Rightarrow> world option" where
  "op_IxTn w v args =
     do { d \<leftarrow> arg args 0; a1 \<leftarrow> arg args 1; a2 \<leftarrow> arg args 2;
          x \<leftarrow> load w v a1; xs \<leftarrow> asValues x; val \<leftarrow> index xs (unat a2); store w v d val }"

definition op_IxZl :: "world \<Rightarrow> nat \<Rightarrow> 32 word list \<Rightarrow> world option" where
  "op_IxZl w v args =
     do { d \<leftarrow> arg args 0; a1 \<leftarrow> arg args 1; a2 \<leftarrow> arg args 2; m \<leftarrow> index (vms w) v;
          x \<leftarrow> load w v a1; y \<leftarrow> load w v a2; label \<leftarrow> asInt y;
          ix \<leftarrow> Resolve (StructResolve m) (unat (T x - Ub_enums m)) label;
          xs \<leftarrow> asValues x; val \<leftarrow> index_int xs ix; store w v d val }"

definition op_KeyZ :: "world \<Rightarrow> nat \<Rightarrow> 32 word list \<Rightarrow> world option" where
  "op_KeyZ w v args =
     do { d \<leftarrow> arg args 0; a1 \<leftarrow> arg args 1; m \<leftarrow> index (vms w) v; x \<leftarrow> load w v a1;
          labels \<leftarrow> index (StructLabels m) (unat (T x - Ub_enums m));
          store w v d (Value LIST (VectorV (map (\<lambda>labelNumber. Value LABEL (IntV labelNumber)) labels))) }"

text \<open>\<open>List\<close> and \<open>TupL\<close> convert between a tuple and a persistent vector.\<close>

definition op_List :: "Value \<Rightarrow> Value option" where
  "op_List x =
     (if T x = TUPLE then do { xs \<leftarrow> asValues x; Some (Value LIST (VectorV xs)) }
      else Some (Value LIST (VectorV [x])))"

definition op_TupL :: "Value \<Rightarrow> Value option" where
  "op_TupL x = do { xs \<leftarrow> asVector x; Some (Value TUPLE (ValuesV xs)) }"

text \<open>
  \<open>vm.Literal\<close>: a string is put between double quotes, anything else goes through
  \<open>vm.describe\<close>.
\<close>

definition Literal :: "host \<Rightarrow> world \<Rightarrow> nat \<Rightarrow> Value \<Rightarrow> string option" where
  "Literal h w v x =
     (if T x = STRING then do { s \<leftarrow> asString x; Some ([CHR 0x22] @ s @ [CHR 0x22]) }
      else describe h w v x)"

text \<open>\<open>Mker\<close> allocates a new error object; the fields it does not name are zero.\<close>

definition op_Mker :: "world \<Rightarrow> nat \<Rightarrow> 32 word list \<Rightarrow> world option" where
  "op_Mker w v args =
     do { d \<leftarrow> arg args 0; a1 \<leftarrow> arg args 1; t \<leftarrow> arg args 2; m \<leftarrow> index (vms w) v;
          x \<leftarrow> load w v a1; msg \<leftarrow> asString x; tok \<leftarrow> index (Tokens m) (unat t);
          store (w\<lparr>errors := errors w @ [\<lparr>ErrorId = ''eval/user'', Message = msg, Token = tok,
                                            ErrorArgs = [], Trace = []\<rparr>]\<rparr>)
            v d (Value ERROR (ErrorV (length (errors w)))) }"

text \<open>
  \<open>Mkfn\<close>: the model lambda of the factory is copied, and a new capture array receives
  \<open>vm.Mem[v]\<close> for each \<open>v\<close> of \<open>ExtMem\<close>.
\<close>

definition op_Mkfn :: "world \<Rightarrow> nat \<Rightarrow> 32 word list \<Rightarrow> world option" where
  "op_Mkfn w v args =
     do { a1 \<leftarrow> arg args 1; m \<leftarrow> index (vms w) v;
          lf \<leftarrow> index (LambdaFactories m) (unat a1);
          caps \<leftarrow> load_all w v (ExtMem lf);
          d \<leftarrow> arg args 0;
          store (w\<lparr>captures := captures w @ [caps]\<rparr>)
            v d (Value FUNC (LambdaV ((Model lf)\<lparr>Captures := Some (length (captures w))\<rparr>))) }"

text \<open>
  \<open>Mkst\<close>: the loop over the elements of the source tuple. At an inadmissible element
  the destination receives \<open>vm.Mem[vm.That()]\<close> and the loop goes on; after the loop
  the destination receives the set.
\<close>

fun mkst_loop :: "world \<Rightarrow> nat \<Rightarrow> 32 word \<Rightarrow> Value list \<Rightarrow> Value list \<Rightarrow> (world \<times> Value list) option" where
  "mkst_loop w v d result [] = Some (w, result)"
| "mkst_loop w v d result (x # xs) =
     do { m \<leftarrow> index (vms w) v;
          w1 \<leftarrow> (if \<not> admissible m x
                 then do { e \<leftarrow> load w v (That m); store w v d e }
                 else Some w);
          mkst_loop w1 v d (setAdd result x) xs }"

definition op_Mkst :: "world \<Rightarrow> nat \<Rightarrow> 32 word list \<Rightarrow> world option" where
  "op_Mkst w v args =
     do { a1 \<leftarrow> arg args 1; t \<leftarrow> load w v a1; elems \<leftarrow> asValues t; d \<leftarrow> arg args 0;
          (w1, result) \<leftarrow> mkst_loop w v d [] elems;
          store w1 v d (Value SET (SetV result)) }"

text \<open>
  \<open>Mkmp\<close>: at an element that is not a pair the destination receives
  \<open>vm.Mem[vm.That()-1]\<close> and \<open>break\<close> leaves the \<open>for\<close> loop; at a pair whose value
  part is inadmissible the destination receives \<open>vm.Mem[vm.That()]\<close> and the loop goes
  on; after the loop the destination receives the map.
\<close>

fun mkmp_loop :: "world \<Rightarrow> nat \<Rightarrow> 32 word \<Rightarrow> (Value \<times> Value) list \<Rightarrow> Value list \<Rightarrow> (world \<times> (Value \<times> Value) list) option" where
  "mkmp_loop w v d result [] = Some (w, result)"
| "mkmp_loop w v d result (p # ps) =
     do { m \<leftarrow> index (vms w) v;
          if T p \<noteq> PAIR
          then do { e \<leftarrow> load w v (That m - 1); w1 \<leftarrow> store w v d e; Some (w1, result) }
          else do { kv \<leftarrow> asValues p; k \<leftarrow> index kv 0; x \<leftarrow> index kv 1;
                    w1 \<leftarrow> (if \<not> admissible m x
                           then do { e \<leftarrow> load w v (That m); store w v d e }
                           else Some w);
                    mkmp_loop w1 v d (mapSet result k x) ps } }"

definition op_Mkmp :: "world \<Rightarrow> nat \<Rightarrow> 32 word list \<Rightarrow> world option" where
  "op_Mkmp w v args =
     do { a1 \<leftarrow> arg args 1; t \<leftarrow> load w v a1; elems \<leftarrow> asValues t; d \<leftarrow> arg args 0;
          (w1, result) \<leftarrow> mkmp_loop w v d [] elems;
          store w1 v d (Value MAP (MapV result)) }"

text \<open>
  \<open>Dofn\<close> before and after the nested \<open>Run\<close>. Before: the loop
  \<open>for i := 0; i < int(lhs.PrmTop-lhs.ExtTop); i++\<close> writes the arguments into the
  register file of the machine \<open>lhs.Mc\<close>, then \<open>copy(lhs.Captures, vm.Mem)\<close> writes
  the first registers of the calling machine into the capture array (as many as the
  shorter of the two holds). After: \<open>vm.Mem[args[0]] = lhs.Mc.Mem[lhs.Dest]\<close>.
\<close>

fun dofn_params :: "world \<Rightarrow> nat \<Rightarrow> 32 word list \<Rightarrow> lambda \<Rightarrow> nat \<Rightarrow> nat \<Rightarrow> world option" where
  "dofn_params w v args lhs i 0 = Some w"
| "dofn_params w v args lhs i (Suc n) =
     do { a \<leftarrow> arg args (2 + i); x \<leftarrow> load w v a;
          w' \<leftarrow> store_at w (Mc lhs) (unat (ExtTop lhs) + i) x;
          dofn_params w' v args lhs (Suc i) n }"

definition copy_captures :: "world \<Rightarrow> nat \<Rightarrow> lambda \<Rightarrow> world option" where
  "copy_captures w v lhs =
     do { m \<leftarrow> index (vms w) v;
          Some (case Captures lhs of
                  None \<Rightarrow> w
                | Some c \<Rightarrow>
                    (case index (captures w) c of
                       None \<Rightarrow> w
                     | Some dst \<Rightarrow>
                         (let n = min (length dst) (length (Mem m))
                          in w\<lparr>captures := (captures w)[c := take n (Mem m) @ drop n dst]\<rparr>))) }"

definition dofn_enter :: "world \<Rightarrow> nat \<Rightarrow> 32 word list \<Rightarrow> (world \<times> lambda) option" where
  "dofn_enter w v args =
     do { a1 \<leftarrow> arg args 1; f \<leftarrow> load w v a1; lhs \<leftarrow> asLambda f;
          w1 \<leftarrow> dofn_params w v args lhs 0 (unat (PrmTop lhs - ExtTop lhs));
          w2 \<leftarrow> copy_captures w1 v lhs;
          Some (w2, lhs) }"

definition dofn_leave :: "world \<Rightarrow> nat \<Rightarrow> 32 word list \<Rightarrow> lambda \<Rightarrow> world option" where
  "dofn_leave w v args lhs =
     do { d \<leftarrow> arg args 0; r \<leftarrow> load w (Mc lhs) (Dest lhs); store w v d r }"

text \<open>
  How a case leaves the \<open>switch\<close>: by reaching its end with the location \<open>loc\<close> (the
  loop then executes \<open>loc++\<close>), by \<open>continue\<close> with a new location, or by
  \<open>break loop\<close>.
\<close>

datatype flow = Next "32 word" | Continue "32 word" | Break

text \<open>
  How \<open>Run\<close> ends: in a panic, by leaving the loop, or, in the model only, by running
  out of fuel (with the stores as they are at that moment).
\<close>

datatype outcome = Panicked | OutOfFuel world | Finished world

definition falls :: "32 word \<Rightarrow> world option \<Rightarrow> outcome + world \<times> flow" where
  "falls loc r = (case r of None \<Rightarrow> Inl Panicked | Some w' \<Rightarrow> Inr (w', Next loc))"

definition jumps :: "(world \<times> 32 word) option \<Rightarrow> outcome + world \<times> flow" where
  "jumps r = (case r of None \<Rightarrow> Inl Panicked | Some (w', l) \<Rightarrow> Inr (w', Continue l))"

definition branch :: "world \<Rightarrow> 32 word \<Rightarrow> 32 word list \<Rightarrow> nat \<Rightarrow> bool option \<Rightarrow> (world \<times> 32 word) option" where
  "branch w loc args k cond =
     do { c \<leftarrow> cond; if c then Some (w, loc + 1) else do { target \<leftarrow> arg args k; Some (w, target) } }"

text \<open>
  One case of the \<open>switch\<close>, for the operation \<open>op\<close> at location \<open>loc\<close> of the
  machine at address \<open>v\<close>. \<open>sub\<close> is the nested call \<open>lhs.Mc.Run(lhs.LocToCall)\<close> of
  \<open>Dofn\<close>.
\<close>

definition exec :: "host \<Rightarrow> (world \<Rightarrow> nat \<Rightarrow> 32 word \<Rightarrow> outcome) \<Rightarrow> world \<Rightarrow> nat \<Rightarrow> 32 word \<Rightarrow> operation \<Rightarrow> outcome + world \<times> flow" where
  "exec h sub w v loc op =
    (let args = Args op in
     case Opcode op of
       Addf \<Rightarrow> falls loc (op3 (floats (\<lambda>a b. Value FLOAT (FloatV (fadd h a b)))) w v args)
     | Addi \<Rightarrow> falls loc (op3 (ints (\<lambda>i j. Some (Value INT' (IntV (i + j))))) w v args)
     | Adds \<Rightarrow> falls loc (op3 (strings (\<lambda>a b. Value STRING (StringV (a @ b)))) w v args)
     | Adtk \<Rightarrow> falls loc (op_Adtk w v args)
     | Andb \<Rightarrow> falls loc (op3 (bools (\<lambda>a b. Value BOOL (BoolV (a \<and> b)))) w v args)
     | Asgm \<Rightarrow> falls loc (op2 Some w v args)
     | Call \<Rightarrow> jumps (op_Call w v loc args)
     | CalT \<Rightarrow> jumps (op_CalT w v loc args)
     | Cc11 \<Rightarrow> falls loc (op3 cc11 w v args)
     | Cc1T \<Rightarrow> falls loc (op3 cc1T w v args)
     | CcT1 \<Rightarrow> falls loc (op3 ccT1 w v args)
     | CcTT \<Rightarrow> falls loc (op3 ccTT w v args)
     | Ccxx \<Rightarrow> falls loc (op3 ccxx w v args)
     | Cv1T \<Rightarrow> falls loc (op2 (\<lambda>x. Some (Value TUPLE (ValuesV [x]))) w v args)
     | CvTT \<Rightarrow> falls loc (op_CvTT w v args)
     | Divf \<Rightarrow> falls loc (op3 (floats (\<lambda>a b. Value FLOAT (FloatV (fdiv h a b)))) w v args)
     | Divi \<Rightarrow> falls loc (op3 (ints (\<lambda>i j. do { q \<leftarrow> go_div i j; Some (Value INT' (IntV q)) })) w v args)
     | Dofn \<Rightarrow>
         (case dofn_enter w v args of
            None \<Rightarrow> Inl Panicked
          | Some (w1, lhs) \<Rightarrow>
              (case sub w1 (Mc lhs) (LocToCall lhs) of
                 Finished w2 \<Rightarrow> falls loc (dofn_leave w2 v args lhs)
               | Panicked \<Rightarrow> Inl Panicked
               | OutOfFuel w2 \<Rightarrow> Inl (OutOfFuel w2)))
     | Dref \<Rightarrow> falls loc (op2 (\<lambda>x. do { a \<leftarrow> asUint32 x; load w v a }) w v args)
     | Equb \<Rightarrow> falls loc (op3 (bools (\<lambda>a b. Value BOOL (BoolV (a = b)))) w v args)
     | Equf \<Rightarrow> falls loc (op3 (floats (\<lambda>a b. Value BOOL (BoolV (feq h a b)))) w v args)
     | Equi \<Rightarrow> falls loc (op3 (ints (\<lambda>i j. Some (Value BOOL (BoolV (i = j))))) w v args)
     | Equs \<Rightarrow> falls loc (op3 (strings (\<lambda>a b. Value BOOL (BoolV (a = b)))) w v args)
     | Flti \<Rightarrow> falls loc (op2 (\<lambda>x. do { i \<leftarrow> asInt x; Some (Value FLOAT (FloatV (float_of_int h i))) }) w v args)
     | Flts \<Rightarrow> falls loc (op2 (\<lambda>x. do { s \<leftarrow> asString x;
                   Some (case ParseFloat h s of
                           None \<Rightarrow> Value ERROR (IntV DUMMY)
                         | Some f \<Rightarrow> Value FLOAT (FloatV f)) }) w v args)
     | Gtef \<Rightarrow> falls loc (op3 (floats (\<lambda>a b. Value BOOL (BoolV (fge h a b)))) w v args)
     | Gtei \<Rightarrow> falls loc (op3 (ints (\<lambda>i j. Some (Value BOOL (BoolV (sint j \<le> sint i))))) w v args)
     | Gthf \<Rightarrow> falls loc (op3 (floats (\<lambda>a b. Value BOOL (BoolV (fgt h a b)))) w v args)
     | Gthi \<Rightarrow> falls loc (op3 (ints (\<lambda>i j. Some (Value BOOL (BoolV (sint j < sint i))))) w v args)
     | Halt \<Rightarrow> Inr (w, Break)
     | Idfn \<Rightarrow> falls loc (op2 Some w v args)
     | Intf \<Rightarrow> falls loc (op2 (\<lambda>x. do { f \<leftarrow> asFloat x; Some (Value INT' (IntV (int_of_float h f))) }) w v args)
     | Ints \<Rightarrow> falls loc (op2 (\<lambda>x. do { s \<leftarrow> asString x;
                   Some (case Atoi h s of
                           None \<Rightarrow> Value ERROR (IntV DUMMY)
                         | Some i \<Rightarrow> Value INT' (IntV i)) }) w v args)
     | IdxL \<Rightarrow> falls loc (op_IdxL w v args)
     | Idxp \<Rightarrow> falls loc (op_Idxp w v args)
     | Idxs \<Rightarrow> falls loc (op_Idxs w v args)
     | Idxt \<Rightarrow> falls loc (op_Idxt w v args)
     | IdxT \<Rightarrow> falls loc (op_IdxT w v args)
     | IxTn \<Rightarrow> falls loc (op_IxTn w v args)
     | IxZl \<Rightarrow> falls loc (op_IxZl w v args)
     | IxZn \<Rightarrow> falls loc (op_IxTn w v args)
     | Jmp \<Rightarrow> jumps (do { target \<leftarrow> arg args 0; Some (w, target) })
     | Jsr \<Rightarrow> jumps (do { w' \<leftarrow> push w v loc; target \<leftarrow> arg args 0; Some (w', target) })
     | KeyM \<Rightarrow> falls loc (op2 (\<lambda>x. do { kvs \<leftarrow> asMap x; Some (Value LIST (VectorV (AsVector kvs))) }) w v args)
     | KeyZ \<Rightarrow> falls loc (op_KeyZ w v args)
     | LenL \<Rightarrow> falls loc (op2 (\<lambda>x. do { xs \<leftarrow> asVector x; Some (Value INT' (IntV (of_nat (length xs)))) }) w v args)
     | LenM \<Rightarrow> falls loc (op2 (\<lambda>x. do { kvs \<leftarrow> asMap x; Some (Value INT' (IntV (of_nat (length kvs)))) }) w v args)
     | Lens \<Rightarrow> falls loc (op2 (\<lambda>x. do { s \<leftarrow> asString x; Some (Value INT' (IntV (of_nat (length s)))) }) w v args)
     | LenS \<Rightarrow> falls loc (op2 (\<lambda>x. do { xs \<leftarrow> asSet x; Some (Value INT' (IntV (of_nat (length xs)))) }) w v args)
     | LenT \<Rightarrow> falls loc (op2 (\<lambda>x. do { xs \<leftarrow> asValues x; Some (Value INT' (IntV (of_nat (length xs)))) }) w v args)
     | List \<Rightarrow> falls loc (op2 op_List w v args)
     | Litx \<Rightarrow> falls loc (op2 (\<lambda>x. do { s \<leftarrow> Literal h w v x; Some (Value STRING (StringV s)) }) w v args)
     | Mker \<Rightarrow> falls loc (op_Mker w v args)
     | Mkfn \<Rightarrow> falls loc (op_Mkfn w v args)
     | Mkpr \<Rightarrow> falls loc (op3 (\<lambda>x y. Some (Value PAIR (ValuesV [x, y]))) w v args)
     | Mkst \<Rightarrow> falls loc (op_Mkst w v args)
     | Mkmp \<Rightarrow> falls loc (op_Mkmp w v args)
     | Modi \<Rightarrow> falls loc (op3 (ints (\<lambda>i j. do { r \<leftarrow> go_mod i j; Some (Value INT' (IntV r)) })) w v args)
     | Mulf \<Rightarrow> falls loc (op3 (floats (\<lambda>a b. Value FLOAT (FloatV (fmul h a b)))) w v args)
     | Muli \<Rightarrow> falls loc (op3 (ints (\<lambda>i j. Some (Value INT' (IntV (i * j))))) w v args)
     | Negf \<Rightarrow> falls loc (op2 (\<lambda>x. do { f \<leftarrow> asFloat x; Some (Value FLOAT (FloatV (fneg h f))) }) w v args)
     | Negi \<Rightarrow> falls loc (op2 (\<lambda>x. do { i \<leftarrow> asInt x; Some (Value INT' (IntV (- i))) }) w v args)
     | Notb \<Rightarrow> falls loc (op2 (\<lambda>x. do { b \<leftarrow> asBool x; Some (Value BOOL (BoolV (\<not> b))) }) w v args)
     | Orb \<Rightarrow> falls loc (op3 (bools (\<lambda>a b. Value BOOL (BoolV (a \<or> b)))) w v args)
     | QlnT \<Rightarrow>
         (case do { a0 \<leftarrow> arg args 0; x \<leftarrow> load w v a0; xs \<leftarrow> asValues x; k \<leftarrow> arg args 1;
                    branch w loc args 2 (Some (length xs = unat k)) } of
            None \<Rightarrow> Inl Panicked
          | Some (w', l) \<Rightarrow> Inr (w', Next l))
     | Qsng \<Rightarrow> jumps (do { a0 \<leftarrow> arg args 0; x \<leftarrow> load w v a0;
                            branch w loc args 1 (Some (INT' \<le> T x)) })
     | QsnQ \<Rightarrow> jumps (do { a0 \<leftarrow> arg args 0; x \<leftarrow> load w v a0;
                            branch w loc args 1 (Some (NULL \<le> T x)) })
     | Qtru \<Rightarrow> jumps (do { a0 \<leftarrow> arg args 0; x \<leftarrow> load w v a0;
                            branch w loc args 1 (asBool x) })
     | Qtyp \<Rightarrow> jumps (do { a0 \<leftarrow> arg args 0; x \<leftarrow> load w v a0; t \<leftarrow> arg args 1;
                            branch w loc args 2 (Some (T x = t)) })
     | Ret \<Rightarrow>
         (case index (vms w) v of
            None \<Rightarrow> Inl Panicked
          | Some m \<Rightarrow>
              (if callstack m = [] then Inr (w, Break)
               else Inr (w\<lparr>vms := (vms w)[v := m\<lparr>callstack := butlast (callstack m)\<rparr>]\<rparr>,
                         Next (last (callstack m)))))
     | Strc \<Rightarrow> falls loc (op_Strc w v args)
     | Strx \<Rightarrow> falls loc (op2 (\<lambda>x. do { s \<leftarrow> describe h w v x; Some (Value STRING (StringV s)) }) w v args)
     | Subf \<Rightarrow> falls loc (op3 (floats (\<lambda>a b. Value FLOAT (FloatV (fsub h a b)))) w v args)
     | Subi \<Rightarrow> falls loc (op3 (ints (\<lambda>i j. Some (Value INT' (IntV (i - j))))) w v args)
     | Thnk \<Rightarrow> falls loc (do { d \<leftarrow> arg args 0; x \<leftarrow> load w v d; a1 \<leftarrow> arg args 1;
                               store w v d (Value THUNK (Uint32V a1)) })
     | TupL \<Rightarrow> falls loc (op2 op_TupL w v args)
     | Typx \<Rightarrow> falls loc (op2 (\<lambda>x. Some (Value TYPE' (TypeV (T x)))) w v args)
     | Untk \<Rightarrow>
         (case do { a0 \<leftarrow> arg args 0; load w v a0 } of
            None \<Rightarrow> Inl Panicked
          | Some x \<Rightarrow>
              (if T x = THUNK
               then jumps (do { w' \<leftarrow> push w v loc; target \<leftarrow> asUint32 x; Some (w', target) })
               else Inr (w, Next loc)))
     | Unhandled \<Rightarrow> Inl Panicked)"

text \<open>
  \<open>Run\<close> is compiled with \<open>SHOW_RUN = true\<close>, so every round of the loop first
  evaluates \<open>vm.DescribeCode(loc)\<close>. Its text is only printed; what the model keeps is
  where it panics: \<open>strings.Repeat(" ", 6-len(prefix))\<close> has a negative count from
  location 100 on (the prefix is \<open>@\<close>, the decimal digits and three more characters),
  and \<open>vm.Code[loc]\<close> must exist. The function \<open>describe\<close> of an operation is not
  under src/ and is taken to return.
\<close>

definition DescribeCode :: "vm \<Rightarrow> 32 word \<Rightarrow> unit option" where
  "DescribeCode m loc =
     (if 100 \<le> unat loc then None
      else do { op \<leftarrow> index (Code m) (unat loc); Some () })"

text \<open>
  One round of the loop of \<open>Run\<close>: \<open>Inl\<close> when the loop is left, \<open>Inr\<close> with the
  stores and the location of the next round otherwise.
\<close>

definition iteration :: "host \<Rightarrow> (world \<Rightarrow> nat \<Rightarrow> 32 word \<Rightarrow> outcome) \<Rightarrow> world \<Rightarrow> nat \<Rightarrow> 32 word \<Rightarrow> outcome + world \<times> 32 word" where
  "iteration h sub w v loc =
     (case do { m \<leftarrow> index (vms w) v; u \<leftarrow> DescribeCode m loc; index (Code m) (unat loc) } of
        None \<Rightarrow> Inl Panicked
      | Some op \<Rightarrow>
          (case exec h sub w v loc op of
             Inl out \<Rightarrow> Inl out
           | Inr (w', Next l) \<Rightarrow> Inr (w', l + 1)
           | Inr (w', Continue l) \<Rightarrow> Inr (w', l)
           | Inr (w', Break) \<Rightarrow> Inl (Finished w')))"

text \<open>
  \<open>Run\<close>, with fuel: each round and each nested \<open>Run\<close> takes one unit, and
  \<open>OutOfFuel\<close> carries the stores reached when it ran out.
\<close>

primrec run :: "nat \<Rightarrow> host \<Rightarrow> world \<Rightarrow> nat \<Rightarrow> 32 word \<Rightarrow> outcome" where
  "run 0 h w v loc = OutOfFuel w"
| "run (Suc n) h w v loc =
     (case iteration h (run n h) w v loc of
        Inl out \<Rightarrow> out
      | Inr (w', loc') \<Rightarrow> run n h w' v loc')"

section \<open>Splicing and the program-building interface\<close>

text \<open>
  The kinds of operand of the schema table: register, code offset, constant, token,
  type, lambda factory and plain number. The table \<open>OPERANDS\<close> itself is declared
  outside src/ and is a parameter of \<open>add\<close>: it gives, for an opcode, the slice \<open>or\<close>
  of its entry (empty for an opcode without entry, where indexing panics).
\<close>

datatype operandType = KMem | KLoc | KConst | KTok | KType | KLfc | KNum

text \<open>
  \<open>len(v.Args) > 1 && OPERANDS[v.Opcode].or[len(v.Args)-1] == kind\<close>, and
  \<open>v.Args[len(v.Args)-1] += delta\<close> on \<open>uint32\<close>.
\<close>

definition lastIs :: "(opcode \<Rightarrow> operandType list) \<Rightarrow> operation \<Rightarrow> operandType \<Rightarrow> bool option" where
  "lastIs OPERANDS v kind =
     (if length (Args v) > 1
      then do { k \<leftarrow> index (OPERANDS (Opcode v)) (length (Args v) - 1); Some (k = kind) }
      else Some False)"

definition bumpLast :: "operation \<Rightarrow> 32 word \<Rightarrow> operation" where
  "bumpLast v delta =
     v\<lparr>Args := (Args v)[length (Args v) - 1 := Args v ! (length (Args v) - 1) + delta]\<rparr>"

fun add_loop :: "(opcode \<Rightarrow> operandType list) \<Rightarrow> 32 word \<Rightarrow> 32 word \<Rightarrow> 32 word \<Rightarrow> operation list \<Rightarrow> operation list option" where
  "add_loop OPERANDS start tokStart lfStart [] = Some []"
| "add_loop OPERANDS start tokStart lfStart (v # vs) =
     do { isLoc \<leftarrow> lastIs OPERANDS v KLoc;
          v1 \<leftarrow> Some (if isLoc then bumpLast v start else v);
          isTok \<leftarrow> lastIs OPERANDS v1 KTok;
          v2 \<leftarrow> Some (if isTok then bumpLast v1 tokStart else v1);
          isLfc \<leftarrow> lastIs OPERANDS v2 KLfc;
          v3 \<leftarrow> Some (if isLfc then bumpLast v2 lfStart else v2);
          rest \<leftarrow> add_loop OPERANDS start tokStart lfStart vs;
          Some (v3 # rest) }"

text \<open>
  \<open>add\<close>: the operations of \<open>vmToAdd\<close> are relocated in place (the code is a slice of
  pointers) and the same operations are appended to the code of \<open>vm\<close>; the result is
  the pair of the two machines afterwards. The two machines are distinct and no operation
  occurs twice, as for a machine made by \<open>tempVm\<close>.
\<close>

definition add :: "(opcode \<Rightarrow> operandType list) \<Rightarrow> vm \<Rightarrow> vm \<Rightarrow> (vm \<times> vm) option" where
  "add OPERANDS m vmToAdd =
     do { code \<leftarrow> add_loop OPERANDS (CodeTop m) (TokenTop m) (LfTop m) (Code vmToAdd);
          Some (m\<lparr>Code := Code m @ code,
                   Tokens := Tokens m @ Tokens vmToAdd,
                   LambdaFactories := LambdaFactories m @ LambdaFactories vmToAdd\<rparr>,
                vmToAdd\<lparr>Code := code\<rparr>) }"

definition BlankVm :: vm where
  "BlankVm =
     \<lparr>Mem = CONSTANTS, callstack = [], Code = [], StructResolve = [], Ub_enums = LB_ENUMS,
      TypeNames = [''UNDEFINED VALUE!!!'', ''INT_ARRAY'', ''thunk'', ''created local constant'',
                   ''tuple'', ''error'', ''unsat'', ''ref'', ''null'', ''int'', ''bool'',
                   ''string'', ''float64'', ''type'', ''func'', ''pair'', ''list'', ''map'',
                   ''set'', ''label''],
      StructLabels = [], Enums = [], Labels = [], Tokens = [], LambdaFactories = []\<rparr>"

text \<open>
  Modelled from the spec: the methods \<open>reserve\<close>, \<open>reserveError\<close>, \<open>emit\<close> and
  \<open>put\<close> of the compiler are not under src/. Following section 6.1 of the spec,
  \<open>reserve\<close> appends a constant value to the register file, \<open>reserveError\<close> appends
  an error value made from an identifier, a token and arguments, \<open>emit\<close> appends an
  operation to the code, and \<open>put\<close> is the variant of \<open>emit\<close> that also reserves the
  destination: the operation gets the new top register as its first operand.
\<close>

definition reserve :: "world \<Rightarrow> nat \<Rightarrow> valueType \<Rightarrow> payload \<Rightarrow> world option" where
  "reserve w mc t p =
     do { m \<leftarrow> index (vms w) mc;
          Some (w\<lparr>vms := (vms w)[mc := m\<lparr>Mem := Mem m @ [Value t p]\<rparr>]\<rparr>) }"

definition reserveError :: "world \<Rightarrow> nat \<Rightarrow> string \<Rightarrow> token \<Rightarrow> string list \<Rightarrow> world option" where
  "reserveError w mc ec tok args =
     reserve (w\<lparr>errors := errors w @ [\<lparr>ErrorId = ec, Message = [], Token = tok,
                                         ErrorArgs = args, Trace = []\<rparr>]\<rparr>)
       mc ERROR (ErrorV (length (errors w)))"

definition emit :: "world \<Rightarrow> nat \<Rightarrow> opcode \<Rightarrow> 32 word list \<Rightarrow> world option" where
  "emit w mc oc args =
     do { m \<leftarrow> index (vms w) mc;
          Some (w\<lparr>vms := (vms w)[mc := m\<lparr>Code := Code m @ [\<lparr>Opcode = oc, Args = args\<rparr>]\<rparr>]\<rparr>) }"

definition put :: "world \<Rightarrow> nat \<Rightarrow> opcode \<Rightarrow> 32 word list \<Rightarrow> world option" where
  "put w mc oc args =
     do { m \<leftarrow> index (vms w) mc;
          w1 \<leftarrow> emit w mc oc (MemTop m # args);
          reserve w1 mc UNDEFINED_VALUE NilV }"

text \<open>
  \<open>btDivideIntegers\<close> (source/compiler/typeschemes.go); the operands of each call are
  evaluated before the call, so \<open>That()\<close> and \<open>CodeTop()\<close> are read on the
  machine as the preceding call left it.
\<close>

definition btDivideIntegers :: "world \<Rightarrow> nat \<Rightarrow> token \<Rightarrow> 32 word \<Rightarrow> 32 word list \<Rightarrow> world option" where
  "btDivideIntegers w mc tok dest args =
     do { w1 \<leftarrow> reserve w mc INT' (IntV 0);
          a2 \<leftarrow> arg args 2; m1 \<leftarrow> index (vms w1) mc;
          w2 \<leftarrow> put w1 mc Equi [a2, That m1];
          m2 \<leftarrow> index (vms w2) mc;
          w3 \<leftarrow> emit w2 mc Qtru [That m2, CodeTop m2 + 3];
          w4 \<leftarrow> reserveError w3 mc ''built/div/int'' tok [];
          m4 \<leftarrow> index (vms w4) mc;
          w5 \<leftarrow> emit w4 mc Asgm [dest, That m4];
          m5 \<leftarrow> index (vms w5) mc;
          w6 \<leftarrow> emit w5 mc Jmp [CodeTop m5 + 2];
          a0 \<leftarrow> arg args 0;
          emit w6 mc Divi [dest, a0, a2] }"

text \<open>\<open>btMakeSet\<close> and \<open>btMakeMap\<close> (source/compiler/typeschemes.go).\<close>

definition btMakeSet :: "world \<Rightarrow> nat \<Rightarrow> token \<Rightarrow> 32 word \<Rightarrow> 32 word list \<Rightarrow> world option" where
  "btMakeSet w mc tok dest args =
     do { w1 \<leftarrow> reserveError w mc ''built/set/type'' tok [];
          a0 \<leftarrow> arg args 0;
          emit w1 mc Mkst [dest, a0] }"

definition btMakeMap :: "world \<Rightarrow> nat \<Rightarrow> token \<Rightarrow> 32 word \<Rightarrow> 32 word list \<Rightarrow> world option" where
  "btMakeMap w mc tok dest args =
     do { w1 \<leftarrow> reserveError w mc ''built/map/pair'' tok [];
          w2 \<leftarrow> reserveError w1 mc ''built/map/type'' tok [];
          a0 \<leftarrow> arg args 0;
          emit w2 mc Mkmp [dest, a0] }"

text \<open>
  A host for running programs that execute no float, conversion or stringification
  opcode: every such operation gives a fixed answer.
\<close>

definition nullHost :: host where
  "nullHost =
     \<lparr>fadd = (\<lambda>a b. 0), fsub = (\<lambda>a b. 0), fmul = (\<lambda>a b. 0), fdiv = (\<lambda>a b. 0),
      fneg = (\<lambda>a. 0), feq = (\<lambda>a b. False), fge = (\<lambda>a b. False), fgt = (\<lambda>a b. False),
      float_of_int = (\<lambda>i. 0), int_of_float = (\<lambda>f. 0), ParseFloat = (\<lambda>s. None),
      Atoi = (\<lambda>s. None), describe = (\<lambda>w v x. None)\<rparr>"

text \<open>The lengths of all register files, machine by machine.\<close>

definition shape :: "world \<Rightarrow> nat list" where
  "shape w = map (\<lambda>m. length (Mem m)) (vms w)"

definition keeps :: "world \<Rightarrow> outcome \<Rightarrow> bool" where
  "keeps w out =
     (case out of
        Panicked \<Rightarrow> True
      | OutOfFuel w' \<Rightarrow> shape w' = shape w
      | Finished w' \<Rightarrow> shape w' = shape w)"

text \<open>
  The stores that \<open>Run\<close> leaves when it returns, and the stores of an outcome that
  has any (a panic ends the program).
\<close>

definition stores :: "outcome \<Rightarrow> world option" where
  "stores out = (case out of Panicked \<Rightarrow> None | OutOfFuel w \<Rightarrow> Some w | Finished w \<Rightarrow> Some w)"

definition finished :: "outcome \<Rightarrow> world option" where
  "finished out = (case out of Finished w \<Rightarrow> Some w | _ \<Rightarrow> None)"

section \<open>Programs of the end-to-end scenarios\<close>

text \<open>
  Division: on a blank machine, register 4 holds the dividend 10, register 5 the
  divisor, register 6 is the destination; the operands of the builtin are the
  dividend, the operator word and the divisor. The code is what \<open>btDivideIntegers\<close>
  emits, followed by \<open>Halt\<close>.
\<close>

definition divScenario :: "64 word \<Rightarrow> world option" where
  "divScenario divisor =
     do { w1 \<leftarrow> reserve \<lparr>vms = [BlankVm], errors = [], captures = []\<rparr> 0 INT' (IntV 10);
          w2 \<leftarrow> reserve w1 0 INT' (IntV divisor);
          w3 \<leftarrow> reserve w2 0 UNDEFINED_VALUE NilV;
          w4 \<leftarrow> btDivideIntegers w3 0 1 6 [4, 0, 5];
          emit w4 0 Halt [] }"

text \<open>
  Set and map construction: register 4 holds the source tuple, register 5 is the
  destination, and the code is what \<open>btMakeSet\<close> (\<open>btMakeMap\<close>) emits, followed by
  \<open>Halt\<close>; the latent error registers are the last ones of the register file.
\<close>

definition setScenario :: "Value list \<Rightarrow> world option" where
  "setScenario elems =
     do { w1 \<leftarrow> reserve \<lparr>vms = [BlankVm], errors = [], captures = []\<rparr> 0 TUPLE (ValuesV elems);
          w2 \<leftarrow> reserve w1 0 UNDEFINED_VALUE NilV;
          w3 \<leftarrow> btMakeSet w2 0 1 5 [4];
          emit w3 0 Halt [] }"

definition mapScenario :: "Value list \<Rightarrow> world option" where
  "mapScenario elems =
     do { w1 \<leftarrow> reserve \<lparr>vms = [BlankVm], errors = [], captures = []\<rparr> 0 TUPLE (ValuesV elems);
          w2 \<leftarrow> reserve w1 0 UNDEFINED_VALUE NilV;
          w3 \<leftarrow> btMakeMap w2 0 1 5 [4];
          emit w3 0 Halt [] }"

text \<open>
  Tuple concatenation: registers 4 and 5 hold the tuples \<open>[1, 2]\<close> and \<open>[3, 4]\<close>,
  register 6 holds \<open>INT 0\<close>, registers 7 and 8 are the destinations.
\<close>

definition tupleWorld :: world where
  "tupleWorld =
     \<lparr>vms = [BlankVm\<lparr>Mem := CONSTANTS @
                  [Value TUPLE (ValuesV [Value INT' (IntV 1), Value INT' (IntV 2)]),
                   Value TUPLE (ValuesV [Value INT' (IntV 3), Value INT' (IntV 4)]),
                   Value INT' (IntV 0),
                   Value UNDEFINED_VALUE NilV,
                   Value UNDEFINED_VALUE NilV],
                Code := [\<lparr>Opcode = CcTT, Args = [7, 4, 5]\<rparr>,
                         \<lparr>Opcode = Cc1T, Args = [8, 6, 4]\<rparr>,
                         \<lparr>Opcode = Halt, Args = []\<rparr>]\<rparr>],
      errors = [], captures = []\<rparr>"

text \<open>
  Tuple length test: register 4 holds a tuple of length 1; the operation at location
  0 is \<open>QlnT\<close> on it with the length \<open>k\<close> and the false target 3.
\<close>

definition qlnWorld :: "32 word \<Rightarrow> world" where
  "qlnWorld k =
     \<lparr>vms = [BlankVm\<lparr>Mem := CONSTANTS @ [Value TUPLE (ValuesV [ONE]), U_OBJ],
                Code := [\<lparr>Opcode = QlnT, Args = [4, k, 3]\<rparr>,
                         \<lparr>Opcode = Asgm, Args = [5, 1]\<rparr>,
                         \<lparr>Opcode = Halt, Args = []\<rparr>,
                         \<lparr>Opcode = Asgm, Args = [5, 0]\<rparr>,
                         \<lparr>Opcode = Halt, Args = []\<rparr>]\<rparr>],
      errors = [], captures = []\<rparr>"

text \<open>
  Error trace: register 4 holds an error whose object has an empty trace, register 5 is
  the destination, token 0 of the machine is the token 7.
\<close>

definition traceWorld :: world where
  "traceWorld =
     \<lparr>vms = [BlankVm\<lparr>Mem := CONSTANTS @ [Value ERROR (ErrorV 0), U_OBJ],
                Code := [\<lparr>Opcode = Adtk, Args = [5, 4, 0]\<rparr>, \<lparr>Opcode = Halt, Args = []\<rparr>],
                Tokens := [7]\<rparr>],
      errors = [\<lparr>ErrorId = ''eval/user'', Message = ''boom'', Token = 3, ErrorArgs = [],
                 Trace = []\<rparr>],
      captures = []\<rparr>"

text \<open>
  Closure capture. The outer machine (address 0): register 4 holds \<open>INT 41\<close>, register
  5 the argument \<open>INT 1\<close>, register 6 receives the lambda and register 7 the result;
  its only lambda factory closes over register 4. The machine of the lambda (address
  1) has, after the four constants, the capture slot 4, the parameter slot 5 and the
  destination 6, each holding \<open>INT 0\<close>, and the body \<open>Addi m6, m4, m5; Ret\<close>.
\<close>

definition closureWorld :: world where
  "closureWorld =
     \<lparr>vms = [BlankVm\<lparr>Mem := CONSTANTS @
                  [Value INT' (IntV 41), Value INT' (IntV 1),
                   Value UNDEFINED_VALUE NilV, Value UNDEFINED_VALUE NilV],
                Code := [\<lparr>Opcode = Mkfn, Args = [6, 0]\<rparr>,
                         \<lparr>Opcode = Dofn, Args = [7, 6, 5]\<rparr>,
                         \<lparr>Opcode = Halt, Args = []\<rparr>],
                LambdaFactories :=
                  [\<lparr>Model = \<lparr>Mc = 1, ExtTop = 5, PrmTop = 6, Dest = 6, LocToCall = 0,
                              Captures = None\<rparr>,
                    ExtMem = [4], Size = 7\<rparr>]\<rparr>,
              BlankVm\<lparr>Mem := CONSTANTS @
                  [Value INT' (IntV 0), Value INT' (IntV 0), Value INT' (IntV 0)],
                Code := [\<lparr>Opcode = Addi, Args = [6, 4, 5]\<rparr>,
                         \<lparr>Opcode = Ret, Args = []\<rparr>]\<rparr>],
      errors = [], captures = []\<rparr>"

text \<open>
  Splicing: a machine with three operations receives a machine whose code is
  \<open>Jmp @1; Qtru m1, @0\<close>; in the schema table \<open>Jmp\<close> has the one operand kind
  \<open>loc\<close>, \<open>Qtru\<close> a register and a \<open>loc\<close>.
\<close>

definition spliceTable :: "opcode \<Rightarrow> operandType list" where
  "spliceTable oc = (if oc = Jmp then [KLoc] else if oc = Qtru then [KMem, KLoc] else [])"

definition spliceBase :: vm where
  "spliceBase =
     BlankVm\<lparr>Code := [\<lparr>Opcode = Halt, Args = []\<rparr>, \<lparr>Opcode = Halt, Args = []\<rparr>,
                      \<lparr>Opcode = Halt, Args = []\<rparr>]\<rparr>"

definition spliceAdded :: vm where
  "spliceAdded =
     BlankVm\<lparr>Code := [\<lparr>Opcode = Jmp, Args = [1]\<rparr>, \<lparr>Opcode = Qtru, Args = [1, 0]\<rparr>]\<rparr>"

section \<open>Properties of the typescheme algebra\<close>

subsection \<open>The ordering \<open>compare\<close>\<close>

text \<open>
  C4. The claim: \<open>compare\<close> is a strict total order modulo equality, with opposite signs
  for \<open>compare \<sigma> \<tau>\<close> and \<open>compare \<tau> \<sigma>\<close> when nonzero, and the kinds ordered
  simple < alternate < finite tuple < typed tuple < bling < list.
  The code at an alternate and a typed tuple: \<open>alternateType.compare\<close> answers \<open>-1\<close>
  through its \<open>default\<close> branch, and \<open>typedTupleType.compare\<close>, whose case list
  \<open>simpleType, finiteTupleType\<close> leaves \<open>alternateType\<close> out, answers \<open>-1\<close> through
  its \<open>default\<close> branch as well: each of the two is below the other.
\<close>

theorem compare_alternate_typedTuple_both_negative:
  "compare (AlternateType [SimpleType 9]) (TypedTupleType [SimpleType 9]) = - 1
   \<and> compare (TypedTupleType [SimpleType 9]) (AlternateType [SimpleType 9]) = - 1"
  by simp

subsection \<open>The length sets\<close>

lemma lengthsAlt_definite:
  "- 1 \<notin> R \<Longrightarrow> \<forall>v \<in> set vs. definite v \<Longrightarrow>
   lengthsAlt R vs = Some (R \<union> (\<Union>v \<in> set vs. lengthsOf v))"
proof (induction vs arbitrary: R)
  case Nil
  then show ?case by simp
next
  case (Cons v vs)
  from Cons.prems obtain S where S: "lengths v = Some S" "- 1 \<notin> S"
    by (auto simp: definite_def split: option.splits)
  have "lengthsAlt (R \<union> S) vs = Some ((R \<union> S) \<union> (\<Union>v \<in> set vs. lengthsOf v))"
    using Cons.prems S by (intro Cons.IH) auto
  then show ?case using S Cons.prems(1)
    by (simp add: lengthsOf_def Un_assoc)
qed

lemma lengthsAlt_stop:
  assumes "- 1 \<notin> R" "\<forall>u \<in> set pre. definite u" "lengths v = Some S" "- 1 \<in> S"
  shows "lengthsAlt R (pre @ v # post) = Some (R \<union> (\<Union>u \<in> set pre. lengthsOf u) \<union> S)"
  using assms
proof (induction pre arbitrary: R)
  case Nil
  then show ?case by simp
next
  case (Cons u pre)
  from Cons.prems obtain T where T: "lengths u = Some T" "- 1 \<notin> T"
    by (auto simp: definite_def split: option.splits)
  have "lengthsAlt (R \<union> T) (pre @ v # post) =
        Some ((R \<union> T) \<union> (\<Union>u \<in> set pre. lengthsOf u) \<union> S)"
    using Cons.prems T by (intro Cons.IH) auto
  then show ?case using T Cons.prems(1)
    by (simp add: lengthsOf_def Un_assoc)
qed

lemma lengths_nonempty_aux:
  "proper t \<Longrightarrow> \<exists>S. lengths t = Some S \<and> S \<noteq> {}"
  "\<forall>v \<in> set vs. proper v \<Longrightarrow>
     \<exists>S. lengthsAlt R vs = Some S \<and> R \<subseteq> S \<and> (vs \<noteq> [] \<longrightarrow> S \<noteq> {})"
  "\<forall>v \<in> set ts. proper v \<Longrightarrow> \<exists>S. lengthsFinite ts = Some S \<and> S \<noteq> {}"
proof (induction t and R vs and ts rule: lengths_lengthsAlt_lengthsFinite.induct)
  case (3 ts)
  then show ?case by (cases ts) auto
next
  case (8 result v vs)
  then obtain S where S: "lengths v = Some S" "S \<noteq> {}" by auto
  show ?case
  proof (cases "- 1 \<in> result \<union> S")
    case True
    then show ?thesis using S by auto
  next
    case False
    with 8 S obtain S' where "lengthsAlt (result \<union> S) vs = Some S'" "result \<union> S \<subseteq> S'"
      by (metis list.set_intros(2))
    then show ?thesis using S False by auto
  qed
next
  case (10 t ts)
  then show ?case by auto
qed auto

text \<open>
  C7, as the claim states it, fails twice: an alternate with no member has the empty
  length set, and the loop over an alternate returns as soon as the accumulated set
  contains \<open>-1\<close>, so the members after a typed tuple contribute nothing.
\<close>

theorem lengths_alternate_counterexample:
  "lengths (AlternateType []) = Some {}
   \<and> lengths (AlternateType [TypedTupleType [SimpleType 9], SimpleType 9]) = Some {- 1}
   \<and> lengthsOf (TypedTupleType [SimpleType 9]) \<union> lengthsOf (SimpleType 9) = {- 1, 1}
   \<and> {- 1} \<noteq> {- 1, 1 :: int}"
  by (auto simp: lengthsOf_def)

text \<open>
  C7, amended. A simple scheme yields \<open>{1}\<close> and a typed tuple \<open>{-1}\<close>. An alternate
  yields the union of its members' length sets when none of them contains \<open>-1\<close>, and
  otherwise the union over the members up to and including the first one whose length
  set contains \<open>-1\<close>. The empty finite tuple yields \<open>{0}\<close>, and a finite tuple yields
  the pairwise sums of the length set of its first component and the length set of the
  finite tuple of the remaining ones. The length set is non-empty for every scheme built
  from simple schemes, typed tuples, finite tuples and alternates with at least one
  member.
\<close>

theorem lengths_by_kind:
  "lengths (SimpleType t) = Some {1}
   \<and> lengths (TypedTupleType a) = Some {- 1}
   \<and> ((\<forall>v \<in> set vs. definite v) \<longrightarrow>
        lengths (AlternateType vs) = Some (\<Union>v \<in> set vs. lengthsOf v))
   \<and> ((\<forall>u \<in> set pre. definite u) \<and> lengths v = Some S \<and> - 1 \<in> S \<longrightarrow>
        lengths (AlternateType (pre @ v # post)) = Some ((\<Union>u \<in> set pre. lengthsOf u) \<union> S))
   \<and> lengths (FiniteTupleType []) = Some {0}
   \<and> (lengths c = Some A \<and> lengths (FiniteTupleType cs) = Some B \<longrightarrow>
        lengths (FiniteTupleType (c # cs)) = Some {j + k |j k. j \<in> A \<and> k \<in> B})
   \<and> (proper \<tau> \<longrightarrow> (\<exists>L. lengths \<tau> = Some L \<and> L \<noteq> {}))"
proof (intro conjI impI)
  show "lengths (AlternateType vs) = Some (\<Union>v \<in> set vs. lengthsOf v)"
    if "\<forall>v \<in> set vs. definite v"
    using lengthsAlt_definite [of "{}" vs] that by simp
  show "lengths (AlternateType (pre @ v # post)) = Some ((\<Union>u \<in> set pre. lengthsOf u) \<union> S)"
    if "(\<forall>u \<in> set pre. definite u) \<and> lengths v = Some S \<and> - 1 \<in> S"
    using lengthsAlt_stop [of "{}" pre v S post] that by simp
  show "lengths (FiniteTupleType (c # cs)) = Some {j + k |j k. j \<in> A \<and> k \<in> B}"
    if "lengths c = Some A \<and> lengths (FiniteTupleType cs) = Some B"
    using that by auto
  show "\<exists>L. lengths \<tau> = Some L \<and> L \<noteq> {}" if "proper \<tau>"
    using that by (rule lengths_nonempty_aux(1))
qed simp_all

theorem lengths_by_kind_witness:
  "list_all definite [SimpleType 9, FiniteTupleType [SimpleType 9, SimpleType 10]]
   \<and> lengths (AlternateType [SimpleType 9, FiniteTupleType [SimpleType 9, SimpleType 10]])
       = Some {1, 2}
   \<and> list_all definite [SimpleType 9]
   \<and> lengths (TypedTupleType [SimpleType 9]) = Some {- 1}
   \<and> lengths (AlternateType ([SimpleType 9] @ TypedTupleType [SimpleType 9] # [FiniteTupleType []]))
       = Some {1, - 1}
   \<and> lengths (SimpleType 9) = Some {1}
   \<and> lengths (FiniteTupleType [SimpleType 10]) = Some {1}
   \<and> lengths (FiniteTupleType [SimpleType 9, SimpleType 10]) = Some {2}
   \<and> proper (AlternateType [SimpleType 9, FiniteTupleType [SimpleType 9, SimpleType 10]])
   \<and> (\<exists>L. lengths (AlternateType [SimpleType 9, FiniteTupleType [SimpleType 9, SimpleType 10]])
            = Some L \<and> L \<noteq> {})"
  using lengths_by_kind [of 9 "[]" "[SimpleType 9, FiniteTupleType [SimpleType 9, SimpleType 10]]"
      "[SimpleType 9]" "TypedTupleType [SimpleType 9]" "{- 1}" "[FiniteTupleType []]"
      "SimpleType 9" "{1}" "[SimpleType 10]" "{1}"
      "AlternateType [SimpleType 9, FiniteTupleType [SimpleType 9, SimpleType 10]]"]
  by (simp add: definite_def lengthsOf_def insert_commute)

section \<open>Evaluating concrete programs\<close>

text \<open>
  Equations for running a concrete program with the simplifier: the fields of the blank
  machine, \<open>run\<close> on a numeral of fuel, \<open>exec\<close> at a given opcode, and the stores
  that the scenario programs start from.
\<close>

lemma BlankVm_sel:
  "Mem BlankVm = CONSTANTS" "callstack BlankVm = []" "Code BlankVm = []"
  "Tokens BlankVm = []" "LambdaFactories BlankVm = []" "Ub_enums BlankVm = LB_ENUMS"
  by (simp_all add: BlankVm_def)

lemma run_numeral:
  "run (numeral k) h w v loc =
     (case iteration h (run (pred_numeral k) h) w v loc of
        Inl out \<Rightarrow> out
      | Inr (w', loc') \<Rightarrow> run (pred_numeral k) h w' v loc')"
  by (simp add: numeral_eq_Suc)

lemma run_1:
  "run 1 h w v loc =
     (case iteration h (run 0 h) w v loc of
        Inl out \<Rightarrow> out
      | Inr (w', loc') \<Rightarrow> run 0 h w' v loc')"
  unfolding One_nat_def by simp


lemma exec_by_opcode:
  "exec h sub w v loc \<lparr>Opcode = Equi, Args = args\<rparr> =
     falls loc (op3 (ints (\<lambda>i j. Some (Value BOOL (BoolV (i = j))))) w v args)"
  "exec h sub w v loc \<lparr>Opcode = Qtru, Args = args\<rparr> =
     jumps (do { a0 \<leftarrow> arg args 0; x \<leftarrow> load w v a0; branch w loc args 1 (asBool x) })"
  "exec h sub w v loc \<lparr>Opcode = Asgm, Args = args\<rparr> = falls loc (op2 Some w v args)"
  "exec h sub w v loc \<lparr>Opcode = Jmp, Args = args\<rparr> =
     jumps (do { target \<leftarrow> arg args 0; Some (w, target) })"
  "exec h sub w v loc \<lparr>Opcode = Divi, Args = args\<rparr> =
     falls loc (op3 (ints (\<lambda>i j. do { q \<leftarrow> go_div i j; Some (Value INT' (IntV q)) })) w v args)"
  "exec h sub w v loc \<lparr>Opcode = Halt, Args = args\<rparr> = Inr (w, Break)"
  "exec h sub w v loc \<lparr>Opcode = Addi, Args = args\<rparr> =
     falls loc (op3 (ints (\<lambda>i j. Some (Value INT' (IntV (i + j))))) w v args)"
  "exec h sub w v loc \<lparr>Opcode = Adtk, Args = args\<rparr> = falls loc (op_Adtk w v args)"
  "exec h sub w v loc \<lparr>Opcode = CcTT, Args = args\<rparr> = falls loc (op3 ccTT w v args)"
  "exec h sub w v loc \<lparr>Opcode = Cc1T, Args = args\<rparr> = falls loc (op3 cc1T w v args)"
  "exec h sub w v loc \<lparr>Opcode = Mkfn, Args = args\<rparr> = falls loc (op_Mkfn w v args)"
  "exec h sub w v loc \<lparr>Opcode = Mkst, Args = args\<rparr> = falls loc (op_Mkst w v args)"
  "exec h sub w v loc \<lparr>Opcode = Mkmp, Args = args\<rparr> = falls loc (op_Mkmp w v args)"
  "exec h sub w v loc \<lparr>Opcode = Dofn, Args = args\<rparr> =
     (case dofn_enter w v args of
        None \<Rightarrow> Inl Panicked
      | Some (w1, lhs) \<Rightarrow>
          (case sub w1 (Mc lhs) (LocToCall lhs) of
             Finished w2 \<Rightarrow> falls loc (dofn_leave w2 v args lhs)
           | Panicked \<Rightarrow> Inl Panicked
           | OutOfFuel w2 \<Rightarrow> Inl (OutOfFuel w2)))"
  "exec h sub w v loc \<lparr>Opcode = QlnT, Args = args\<rparr> =
     (case do { a0 \<leftarrow> arg args 0; x \<leftarrow> load w v a0; xs \<leftarrow> asValues x; k \<leftarrow> arg args 1;
                branch w loc args 2 (Some (length xs = unat k)) } of
        None \<Rightarrow> Inl Panicked
      | Some (w', l) \<Rightarrow> Inr (w', Next l))"
  "exec h sub w v loc \<lparr>Opcode = Ret, Args = args\<rparr> =
     (case index (vms w) v of
        None \<Rightarrow> Inl Panicked
      | Some m \<Rightarrow>
          (if callstack m = [] then Inr (w, Break)
           else Inr (w\<lparr>vms := (vms w)[v := m\<lparr>callstack := butlast (callstack m)\<rparr>]\<rparr>,
                     Next (last (callstack m)))))"
  by (simp_all add: exec_def)

lemmas build_defs = reserve_def reserveError_def emit_def put_def
  index_def arg_def That_def MemTop_def CodeTop_def BlankVm_sel CONSTANTS_def

lemmas run_defs = run_numeral run_1 iteration_def DescribeCode_def exec_by_opcode falls_def
  jumps_def branch_def op3_def op2_def ints_def load_def store_def store_at_def index_def
  arg_def asInt_def asBool_def asValues_def asError_def asLambda_def finished_def BlankVm_sel
  CONSTANTS_def

lemma divScenario_world:
  "divScenario d = Some
     \<lparr>vms = [BlankVm\<lparr>Mem := CONSTANTS @
                  [Value INT' (IntV 10), Value INT' (IntV d), Value UNDEFINED_VALUE NilV,
                   Value INT' (IntV 0), Value UNDEFINED_VALUE NilV, Value ERROR (ErrorV 0)],
                Code := [\<lparr>Opcode = Equi, Args = [8, 5, 7]\<rparr>,
                         \<lparr>Opcode = Qtru, Args = [8, 4]\<rparr>,
                         \<lparr>Opcode = Asgm, Args = [6, 9]\<rparr>,
                         \<lparr>Opcode = Jmp, Args = [5]\<rparr>,
                         \<lparr>Opcode = Divi, Args = [6, 4, 5]\<rparr>,
                         \<lparr>Opcode = Halt, Args = []\<rparr>]\<rparr>],
      errors = [\<lparr>ErrorId = ''built/div/int'', Message = [], Token = 1, ErrorArgs = [],
                 Trace = []\<rparr>],
      captures = []\<rparr>"
  by (simp add: divScenario_def btDivideIntegers_def build_defs)

lemma setScenario_world:
  "setScenario elems = Some
     \<lparr>vms = [BlankVm\<lparr>Mem := CONSTANTS @
                  [Value TUPLE (ValuesV elems), Value UNDEFINED_VALUE NilV, Value ERROR (ErrorV 0)],
                Code := [\<lparr>Opcode = Mkst, Args = [5, 4]\<rparr>, \<lparr>Opcode = Halt, Args = []\<rparr>]\<rparr>],
      errors = [\<lparr>ErrorId = ''built/set/type'', Message = [], Token = 1, ErrorArgs = [],
                 Trace = []\<rparr>],
      captures = []\<rparr>"
  by (simp add: setScenario_def btMakeSet_def build_defs)

lemma mapScenario_world:
  "mapScenario elems = Some
     \<lparr>vms = [BlankVm\<lparr>Mem := CONSTANTS @
                  [Value TUPLE (ValuesV elems), Value UNDEFINED_VALUE NilV,
                   Value ERROR (ErrorV 0), Value ERROR (ErrorV 1)],
                Code := [\<lparr>Opcode = Mkmp, Args = [5, 4]\<rparr>, \<lparr>Opcode = Halt, Args = []\<rparr>]\<rparr>],
      errors = [\<lparr>ErrorId = ''built/map/pair'', Message = [], Token = 1, ErrorArgs = [],
                 Trace = []\<rparr>,
                \<lparr>ErrorId = ''built/map/type'', Message = [], Token = 1, ErrorArgs = [],
                 Trace = []\<rparr>],
      captures = []\<rparr>"
  by (simp add: mapScenario_def btMakeMap_def build_defs)

section \<open>Properties of the machine\<close>

lemma load_store_same:
  "store w v a x = Some w' \<Longrightarrow> load w' v a = Some x"
  by (auto simp: store_def store_at_def load_def index_def split: bind_splits if_splits)

lemma load_store_other:
  "store w v a x = Some w' \<Longrightarrow> unat b \<noteq> unat a \<Longrightarrow> load w' v b = load w v b"
  by (auto simp: store_def store_at_def load_def index_def split: bind_splits if_splits)

subsection \<open>Splicing\<close>

text \<open>
  C1. The claim: \<open>add\<close> relocates every operand whose schema kind is \<open>loc\<close>, \<open>tok\<close> or
  \<open>lfc\<close>, whatever its position and whatever the number of operands.
  The code looks at the last operand only, and only under \<open>len(v.Args) > 1\<close>. Spliced
  behind three operations, \<open>Qtru m1, @0\<close> becomes \<open>Qtru m1, @3\<close>, but \<open>Jmp @1\<close>, whose
  single operand is a \<open>loc\<close>, stays \<open>Jmp @1\<close> where the claim gives \<open>Jmp @4\<close>.
\<close>

theorem add_leaves_single_operand_unrelocated:
  "map_option (\<lambda>(m, a). Code m) (add spliceTable spliceBase spliceAdded)
     = Some [\<lparr>Opcode = Halt, Args = []\<rparr>, \<lparr>Opcode = Halt, Args = []\<rparr>,
             \<lparr>Opcode = Halt, Args = []\<rparr>,
             \<lparr>Opcode = Jmp, Args = [1]\<rparr>, \<lparr>Opcode = Qtru, Args = [1, 3]\<rparr>]"
  by (simp add: add_def spliceTable_def spliceBase_def spliceAdded_def lastIs_def bumpLast_def
      index_def CodeTop_def TokenTop_def LfTop_def BlankVm_sel)

subsection \<open>Sets and maps\<close>

lemma Mkst_writes_a_set:
  "op_Mkst w v args = Some w' \<Longrightarrow>
   \<exists>d s. arg args 0 = Some d \<and> load w' v d = Some (Value SET (SetV s))"
  by (auto simp: op_Mkst_def split: bind_splits dest: load_store_same)

lemma Mkmp_writes_a_map:
  "op_Mkmp w v args = Some w' \<Longrightarrow>
   \<exists>d kvs. arg args 0 = Some d \<and> load w' v d = Some (Value MAP (MapV kvs))"
  by (auto simp: op_Mkmp_def split: bind_splits dest: load_store_same)

text \<open>
  C2. The claim: when an element of the source tuple is inadmissible, \<open>Mkst\<close> and
  \<open>Mkmp\<close> leave an \<open>ERROR\<close> value in the destination.
  The code writes the latent error into the destination inside the loop and, after the
  loop, writes the set or the map over it. A list is inadmissible; the set built from
  \<open>INT 1\<close> and a list is a \<open>SET\<close> holding both, the map built from the non-pair
  \<open>INT 7\<close> is the empty \<open>MAP\<close>, and the map built from a pair whose value part is a
  list is a \<open>MAP\<close> holding that pair.
\<close>

theorem Mkst_Mkmp_inadmissible_elements:
  "\<not> admissible BlankVm (Value LIST (VectorV []))
   \<and> do { w \<leftarrow> setScenario [Value INT' (IntV 1), Value LIST (VectorV [])];
          w' \<leftarrow> finished (run 5 nullHost w 0 0); load w' 0 5 }
     = Some (Value SET (SetV [Value INT' (IntV 1), Value LIST (VectorV [])]))
   \<and> do { w \<leftarrow> mapScenario [Value INT' (IntV 7)];
          w' \<leftarrow> finished (run 5 nullHost w 0 0); load w' 0 5 }
     = Some (Value MAP (MapV []))
   \<and> do { w \<leftarrow> mapScenario [Value PAIR (ValuesV [Value INT' (IntV 1), Value LIST (VectorV [])])];
          w' \<leftarrow> finished (run 5 nullHost w 0 0); load w' 0 5 }
     = Some (Value MAP (MapV [(Value INT' (IntV 1), Value LIST (VectorV []))]))"
  by (simp add: setScenario_world mapScenario_world run_defs op_Mkst_def op_Mkmp_def
      admissible_def That_def setAdd_def tag_defs)

subsection \<open>Tuple concatenation\<close>

lemma ccTT_appends_one_value:
  "ccTT (Value t (ValuesV a)) b = Some (Value TUPLE (ValuesV (a @ [b])))"
  by (simp add: ccTT_def asValues_def)

text \<open>
  C3. The claim: \<open>CcTT\<close> on two tuples writes the elements of the first followed by the
  elements of the second, and \<open>Cc1T\<close> on a value and a tuple writes the value followed by
  the elements of the tuple.
  The code of \<open>CcTT\<close> is that of \<open>CcT1\<close>: it appends the second tuple as one value. On
  the tuples \<open>[1, 2]\<close> and \<open>[3, 4]\<close> register 7 receives the three-element tuple
  \<open>[1, 2, [3, 4]]\<close>, not \<open>[1, 2, 3, 4]\<close>; \<open>Cc1T\<close> on \<open>INT 0\<close> and \<open>[1, 2]\<close> does
  write \<open>[0, 1, 2]\<close> to register 8.
\<close>

theorem CcTT_appends_whole_tuple:
  "do { w' \<leftarrow> finished (run 3 nullHost tupleWorld 0 0); load w' 0 7 }
     = Some (Value TUPLE (ValuesV [Value INT' (IntV 1), Value INT' (IntV 2),
               Value TUPLE (ValuesV [Value INT' (IntV 3), Value INT' (IntV 4)])]))
   \<and> do { w' \<leftarrow> finished (run 3 nullHost tupleWorld 0 0); load w' 0 8 }
     = Some (Value TUPLE (ValuesV [Value INT' (IntV 0), Value INT' (IntV 1), Value INT' (IntV 2)]))"
  by (simp add: tupleWorld_def run_defs ccTT_def cc1T_def)

subsection \<open>Closures\<close>

text \<open>
  C5. The claim: after \<open>Mkfn\<close> the captures hold \<open>INT 41\<close>, and \<open>Dofn\<close> with the argument
  \<open>INT 1\<close> copies the argument into the parameter slot, copies the captures into the
  register file of the lambda, runs the body and leaves \<open>INT 42\<close> in the destination.
  In the code, after the first round (\<open>Mkfn\<close>) the capture array of the lambda is
  \<open>[INT 41]\<close>. \<open>Dofn\<close> then executes \<open>copy(lhs.Captures, vm.Mem)\<close>, which overwrites
  the capture array with register 0 of the calling machine (\<open>FALSE\<close>) and writes
  nothing into the register file of the lambda: its capture slot still holds \<open>INT 0\<close>,
  the parameter slot holds \<open>INT 1\<close>, the body computes \<open>INT 1\<close>, and register 7 of
  the outer machine receives \<open>INT 1\<close>.
\<close>

theorem closure_capture_scenario:
  "do { w1 \<leftarrow> (case iteration nullHost (run 0 nullHost) closureWorld 0 0 of
                  Inr (w1, l) \<Rightarrow> Some w1 | Inl out \<Rightarrow> None);
        f \<leftarrow> load w1 0 6; lhs \<leftarrow> asLambda f; c \<leftarrow> Captures lhs; index (captures w1) c }
     = Some [Value INT' (IntV 41)]
   \<and> do { w' \<leftarrow> finished (run 6 nullHost closureWorld 0 0); load w' 0 7 }
     = Some (Value INT' (IntV 1))
   \<and> do { w' \<leftarrow> finished (run 6 nullHost closureWorld 0 0); load_all w' 1 [4, 5, 6] }
     = Some [Value INT' (IntV 0), Value INT' (IntV 1), Value INT' (IntV 1)]
   \<and> do { w' \<leftarrow> finished (run 6 nullHost closureWorld 0 0); Some (captures w') }
     = Some [[FALSE]]"
  by (simp add: closureWorld_def run_defs op_Mkfn_def dofn_enter_def dofn_leave_def
      copy_captures_def FALSE_def)

subsection \<open>The tuple length test\<close>

lemma QlnT_next_round:
  assumes "index (vms w) v = Some m" and "index (Code m) (unat loc) = Some \<lparr>Opcode = QlnT, Args = [r, k, target]\<rparr>"
    and "unat loc < 100" and "index (Mem m) (unat r) = Some x" and "V x = ValuesV xs"
  shows "iteration h sub w v loc = Inr (w, (if length xs = unat k then loc + 1 else target) + 1)"
proof -
  have args: "arg [r, k, target] 0 = Some r" "arg [r, k, target] (Suc 0) = Some k"
    "arg [r, k, target] 2 = Some target"
    by (simp_all add: arg_def index_def)
  show ?thesis
    using assms
    by (simp add: iteration_def DescribeCode_def exec_by_opcode load_def asValues_def
        branch_def args)
qed

text \<open>
  C6. The claim: after \<open>QlnT reg, k, false_target\<close> the next operation executed is the
  one at \<open>pc + 1\<close> when the tuple has length \<open>k\<close>, and the one at \<open>false_target\<close>
  otherwise.
  The case \<open>QlnT\<close> sets \<open>loc\<close> and, unlike \<open>Qtyp\<close>, \<open>Qtru\<close>, \<open>Qsng\<close> and \<open>QsnQ\<close>, has
  no \<open>continue\<close>, so the \<open>loc++\<close> at the end of the loop is executed as well. With
  \<open>QlnT\<close> at location 0 on a tuple of length 1 and the false target 3, the next round
  is at location 2 for \<open>k = 1\<close> and at location 4 for \<open>k = 2\<close>; in both programs the
  run ends at a \<open>Halt\<close> with no register written.
\<close>

theorem QlnT_skips_an_operation:
  "iteration nullHost (run 0 nullHost) (qlnWorld 1) 0 0 = Inr (qlnWorld 1, 2)
   \<and> iteration nullHost (run 0 nullHost) (qlnWorld 2) 0 0 = Inr (qlnWorld 2, 4)
   \<and> finished (run 5 nullHost (qlnWorld 1) 0 0) = Some (qlnWorld 1)
   \<and> finished (run 5 nullHost (qlnWorld 2) 0 0) = Some (qlnWorld 2)"
  by (simp add: qlnWorld_def run_defs ONE_def)

subsection \<open>Division\<close>

lemma Divi_zero_divisor_panics:
  "load w v b = Some y \<Longrightarrow> asInt y = Some 0 \<Longrightarrow>
   exec h sub w v loc \<lparr>Opcode = Divi, Args = [d, a, b]\<rparr> = Inl Panicked"
  by (auto simp: exec_by_opcode falls_def op3_def ints_def go_div_def arg_def index_def
      split: option.splits bind_splits)

text \<open>
  C8. The code emitted by \<open>btDivideIntegers\<close> is \<open>Equi\<close> of the divisor with a reserved
  constant \<open>INT 0\<close>, \<open>Qtru\<close> on the result, the assignment of the reserved error, a jump
  over the division, and \<open>Divi\<close>. Run with dividend 10 and divisor 0 it leaves in the
  destination an \<open>ERROR\<close> value whose object has the identifier \<open>built/div/int\<close>; with
  divisor 2 it leaves \<open>INT 5\<close>. \<open>Divi\<close> itself makes no test: executed on the divisor
  0 it writes no error value, the division of Go panics.
\<close>

theorem division_scenario:
  "do { w \<leftarrow> divScenario 0; w' \<leftarrow> finished (run 10 nullHost w 0 0); x \<leftarrow> load w' 0 6;
        e \<leftarrow> asError x; ob \<leftarrow> index (errors w') e; Some (T x, ErrorId ob) }
     = Some (ERROR, ''built/div/int'')
   \<and> do { w \<leftarrow> divScenario 2; w' \<leftarrow> finished (run 10 nullHost w 0 0); load w' 0 6 }
     = Some (Value INT' (IntV 5))
   \<and> do { w \<leftarrow> divScenario 0;
          Some (exec nullHost (run 0 nullHost) w 0 4 \<lparr>Opcode = Divi, Args = [6, 4, 5]\<rparr>) }
     = Some (Inl Panicked)
   \<and> do { w \<leftarrow> divScenario d; m \<leftarrow> index (vms w) 0; Some (Code m, index (Mem m) 7) }
     = Some ([\<lparr>Opcode = Equi, Args = [8, 5, 7]\<rparr>,
              \<lparr>Opcode = Qtru, Args = [8, 4]\<rparr>,
              \<lparr>Opcode = Asgm, Args = [6, 9]\<rparr>,
              \<lparr>Opcode = Jmp, Args = [5]\<rparr>,
              \<lparr>Opcode = Divi, Args = [6, 4, 5]\<rparr>,
              \<lparr>Opcode = Halt, Args = []\<rparr>],
             Some (Value INT' (IntV 0)))"
  by (simp add: divScenario_world run_defs go_div_def signed_divide_int_def)

subsection \<open>Error traces\<close>

text \<open>
  C9, as the claim states it, fails: \<open>Adtk\<close> copies the value, whose payload is a
  pointer to the error object, and extends the trace of that one object. With an error of
  empty trace in register 4, after \<open>Adtk m5, m4, t0\<close> the error read through register 4
  has the trace \<open>[7]\<close>.
\<close>

theorem Adtk_extends_the_shared_error_counterexample:
  "do { x \<leftarrow> load traceWorld 0 4; e \<leftarrow> asError x; ob \<leftarrow> index (errors traceWorld) e;
        Some (T x, Trace ob) } = Some (ERROR, [])
   \<and> do { w' \<leftarrow> finished (run 2 nullHost traceWorld 0 0); x \<leftarrow> load w' 0 4; e \<leftarrow> asError x;
          ob \<leftarrow> index (errors w') e; Some (T x, Trace ob) } = Some (ERROR, [7])"
  by (simp add: traceWorld_def run_defs op_Adtk_def AddToTrace_def)

text \<open>
  C9, amended. For every execution of \<open>Adtk dst, src, tok\<close> where the registers and the
  token exist and \<open>mem[src]\<close> holds a value whose payload is a pointer to an error object:
  the case completes and falls through; afterwards \<open>mem[dst]\<close> and \<open>mem[src]\<close> both hold
  the value that \<open>mem[src]\<close> held, so both refer to the same error object; that object
  is the only one changed, and its trace is its original trace with \<open>tokens[tok]\<close>
  appended. The error observable through \<open>src\<close> therefore has its trace extended too.
\<close>

theorem Adtk_shares_the_error_object:
  assumes m: "index (vms w) v = Some m"
    and dst: "unat dst < length (Mem m)"
    and src: "index (Mem m) (unat src) = Some x"
    and x: "V x = ErrorV e"
    and ob: "index (errors w) e = Some ob"
    and tok: "index (Tokens m) (unat tok) = Some t"
  shows "\<exists>w'. exec h sub w v loc \<lparr>Opcode = Adtk, Args = [dst, src, tok]\<rparr> = Inr (w', Next loc)
           \<and> load w' v dst = Some x \<and> load w' v src = Some x
           \<and> errors w' = (errors w)[e := ob\<lparr>Trace := Trace ob @ [t]\<rparr>]
           \<and> index (errors w') e = Some (ob\<lparr>Trace := Trace ob @ [t]\<rparr>)"
proof -
  define w1 where "w1 = w\<lparr>vms := (vms w)[v := m\<lparr>Mem := (Mem m)[unat dst := x]\<rparr>]\<rparr>"
  define w' where "w' = w1\<lparr>errors := (errors w)[e := ob\<lparr>Trace := Trace ob @ [t]\<rparr>]\<rparr>"
  have st: "store w v dst x = Some w1"
    using m dst by (simp add: store_def store_at_def w1_def)
  have ld: "load w v src = Some x"
    using m src by (simp add: load_def)
  have l1: "load w1 v dst = Some x"
    using st by (rule load_store_same)
  have m1: "index (vms w1) v = Some (m\<lparr>Mem := (Mem m)[unat dst := x]\<rparr>)"
    using m by (simp add: w1_def index_def split: if_splits)
  have e1: "errors w1 = errors w"
    by (simp add: w1_def)
  have args: "arg [dst, src, tok] 0 = Some dst" "arg [dst, src, tok] (Suc 0) = Some src"
    "arg [dst, src, tok] 2 = Some tok"
    by (simp_all add: arg_def index_def)
  have "op_Adtk w v [dst, src, tok] = Some w'"
    using st ld l1 m1 x ob tok
    by (simp add: op_Adtk_def args asError_def e1 w'_def AddToTrace_def)
  then have ex: "exec h sub w v loc \<lparr>Opcode = Adtk, Args = [dst, src, tok]\<rparr> = Inr (w', Next loc)"
    by (simp add: exec_by_opcode falls_def)
  have ld': "load w' v dst = Some x"
    using l1 by (simp add: w'_def load_def)
  have ls': "load w' v src = Some x"
  proof (cases "unat src = unat dst")
    case True
    then show ?thesis using ld' by (simp add: load_def)
  next
    case False
    then have "load w1 v src = load w v src"
      using st by (intro load_store_other)
    then show ?thesis using ld by (simp add: w'_def load_def)
  qed
  have er: "errors w' = (errors w)[e := ob\<lparr>Trace := Trace ob @ [t]\<rparr>]"
    by (simp add: w'_def)
  have "index (errors w') e = Some (ob\<lparr>Trace := Trace ob @ [t]\<rparr>)"
    using ob by (simp add: er index_def split: if_splits)
  with ex ld' ls' er show ?thesis by blast
qed

theorem Adtk_shares_the_error_object_witness:
  "index (vms traceWorld) 0 = Some (vms traceWorld ! 0)
   \<and> unat (5 :: 32 word) < length (Mem (vms traceWorld ! 0))
   \<and> index (Mem (vms traceWorld ! 0)) (unat (4 :: 32 word)) = Some (Value ERROR (ErrorV 0))
   \<and> index (errors traceWorld) 0 = Some (errors traceWorld ! 0)
   \<and> index (Tokens (vms traceWorld ! 0)) (unat (0 :: 32 word)) = Some 7
   \<and> (\<exists>w'. exec nullHost (run 0 nullHost) traceWorld 0 0 \<lparr>Opcode = Adtk, Args = [5, 4, 0]\<rparr>
              = Inr (w', Next 0)
         \<and> load w' 0 5 = Some (Value ERROR (ErrorV 0))
         \<and> load w' 0 4 = Some (Value ERROR (ErrorV 0))
         \<and> index (errors w') 0 = Some ((errors traceWorld ! 0)\<lparr>Trace := [7]\<rparr>))"
proof -
  have a: "index (vms traceWorld) 0 = Some (vms traceWorld ! 0)"
    by (simp add: traceWorld_def index_def)
  have b: "unat (5 :: 32 word) < length (Mem (vms traceWorld ! 0))"
    by (simp add: traceWorld_def CONSTANTS_def)
  have c: "index (Mem (vms traceWorld ! 0)) (unat (4 :: 32 word)) = Some (Value ERROR (ErrorV 0))"
    by (simp add: traceWorld_def index_def CONSTANTS_def)
  have d: "V (Value ERROR (ErrorV 0)) = ErrorV 0"
    by simp
  have e: "index (errors traceWorld) 0 = Some (errors traceWorld ! 0)"
    by (simp add: traceWorld_def index_def)
  have f: "index (Tokens (vms traceWorld ! 0)) (unat (0 :: 32 word)) = Some 7"
    by (simp add: traceWorld_def index_def)
  have g: "Trace (errors traceWorld ! 0) = []"
    by (simp add: traceWorld_def)
  show ?thesis
    using Adtk_shares_the_error_object [OF a b c d e f, of nullHost "run 0 nullHost" 0] a b c e f g
    by auto
qed

subsection \<open>The length of the register files\<close>

lemma shape_errors [simp]: "shape (w\<lparr>errors := e\<rparr>) = shape w"
  by (simp add: shape_def)

lemma shape_captures [simp]: "shape (w\<lparr>captures := c\<rparr>) = shape w"
  by (simp add: shape_def)

lemma shape_update:
  "index (vms w) v = Some m \<Longrightarrow> length (Mem m') = length (Mem m) \<Longrightarrow>
   shape (w\<lparr>vms := (vms w)[v := m']\<rparr>) = shape w"
  by (auto simp: shape_def index_def map_update list_eq_iff_nth_eq nth_list_update split: if_splits)

lemma store_at_shape: "store_at w v i x = Some w' \<Longrightarrow> shape w' = shape w"
  by (auto simp: store_at_def shape_update split: bind_splits if_splits)

lemma store_shape: "store w v a x = Some w' \<Longrightarrow> shape w' = shape w"
  by (simp add: store_def store_at_shape)

lemma push_shape: "push w v l = Some w' \<Longrightarrow> shape w' = shape w"
  by (auto simp: push_def shape_update split: bind_splits)

lemma op3_shape: "op3 f w v args = Some w' \<Longrightarrow> shape w' = shape w"
  by (auto simp: op3_def split: bind_splits dest: store_shape)

lemma op2_shape: "op2 f w v args = Some w' \<Longrightarrow> shape w' = shape w"
  by (auto simp: op2_def split: bind_splits dest: store_shape)

lemma op_Adtk_shape: "op_Adtk w v args = Some w' \<Longrightarrow> shape w' = shape w"
  by (auto simp: op_Adtk_def split: bind_splits dest: store_shape)

lemma call_loop_shape: "call_loop w v args offset i n = Some w' \<Longrightarrow> shape w' = shape w"
proof (induction n arbitrary: w i)
  case 0
  then show ?case by simp
next
  case (Suc n)
  then show ?case
    by (auto split: bind_splits dest!: store_shape)
qed

lemma op_Call_shape: "op_Call w v loc args = Some (w', l) \<Longrightarrow> shape w' = shape w"
  by (auto simp: op_Call_def split: bind_splits dest!: call_loop_shape push_shape)

lemma calT_loop_shape:
  "calT_loop w v base tupleList tupleTime j rest = Some w' \<Longrightarrow> shape w' = shape w"
proof (induction rest arbitrary: w tupleTime j)
  case Nil
  then show ?case by simp
next
  case (Cons aj rest)
  then show ?case
    by (auto split: bind_splits if_splits dest!: store_shape store_at_shape)
qed

lemma op_CalT_shape: "op_CalT w v loc args = Some (w', l) \<Longrightarrow> shape w' = shape w"
  by (auto simp: op_CalT_def split: bind_splits dest!: calT_loop_shape push_shape)


lemma op_misc_shape:
  "op_CvTT w v args = Some w' \<Longrightarrow> shape w' = shape w"
  "op_Strc w v args = Some w' \<Longrightarrow> shape w' = shape w"
  "op_IdxL w v args = Some w' \<Longrightarrow> shape w' = shape w"
  "op_Idxp w v args = Some w' \<Longrightarrow> shape w' = shape w"
  "op_Idxs w v args = Some w' \<Longrightarrow> shape w' = shape w"
  "op_Idxt w v args = Some w' \<Longrightarrow> shape w' = shape w"
  "op_IdxT w v args = Some w' \<Longrightarrow> shape w' = shape w"
  "op_IxTn w v args = Some w' \<Longrightarrow> shape w' = shape w"
  "op_IxZl w v args = Some w' \<Longrightarrow> shape w' = shape w"
  "op_KeyZ w v args = Some w' \<Longrightarrow> shape w' = shape w"
  by (auto simp: op_CvTT_def op_Strc_def op_IdxL_def op_Idxp_def op_Idxs_def op_Idxt_def
      op_IdxT_def op_IxTn_def op_IxZl_def op_KeyZ_def
      split: bind_splits if_splits option.splits dest!: store_shape)

lemma op_alloc_shape:
  "op_Mker w v args = Some w' \<Longrightarrow> shape w' = shape w"
  "op_Mkfn w v args = Some w' \<Longrightarrow> shape w' = shape w"
  by (auto simp: op_Mker_def op_Mkfn_def split: bind_splits dest!: store_shape)

lemma mkst_loop_shape: "mkst_loop w v d result xs = Some (w', r) \<Longrightarrow> shape w' = shape w"
proof (induction xs arbitrary: w result)
  case Nil
  then show ?case by simp
next
  case (Cons x xs)
  then show ?case
    by (auto split: bind_splits if_splits dest!: store_shape)
qed

lemma mkmp_loop_shape: "mkmp_loop w v d result ps = Some (w', r) \<Longrightarrow> shape w' = shape w"
proof (induction ps arbitrary: w result)
  case Nil
  then show ?case by simp
next
  case (Cons p ps)
  then show ?case
    by (auto split: bind_splits if_splits dest!: store_shape)
qed

lemma op_Mkst_shape: "op_Mkst w v args = Some w' \<Longrightarrow> shape w' = shape w"
  by (auto simp: op_Mkst_def split: bind_splits dest!: store_shape mkst_loop_shape)

lemma op_Mkmp_shape: "op_Mkmp w v args = Some w' \<Longrightarrow> shape w' = shape w"
  by (auto simp: op_Mkmp_def split: bind_splits dest!: store_shape mkmp_loop_shape)

lemma dofn_params_shape: "dofn_params w v args lhs i n = Some w' \<Longrightarrow> shape w' = shape w"
proof (induction n arbitrary: w i)
  case 0
  then show ?case by simp
next
  case (Suc n)
  then show ?case
    by (auto split: bind_splits dest!: store_at_shape)
qed

lemma copy_captures_shape: "copy_captures w v lhs = Some w' \<Longrightarrow> shape w' = shape w"
  by (auto simp: copy_captures_def Let_def split: bind_splits option.splits)

lemma dofn_enter_shape: "dofn_enter w v args = Some (w', lhs) \<Longrightarrow> shape w' = shape w"
  by (auto simp: dofn_enter_def split: bind_splits dest!: dofn_params_shape copy_captures_shape)

lemma dofn_leave_shape: "dofn_leave w v args lhs = Some w' \<Longrightarrow> shape w' = shape w"
  by (auto simp: dofn_leave_def split: bind_splits dest!: store_shape)

lemma branch_same: "branch w loc args k c = Some (w', l) \<Longrightarrow> w' = w"
  by (auto simp: branch_def split: bind_splits if_splits)

lemma falls_Inr: "falls loc r = Inr (w', fl) \<Longrightarrow> r = Some w'"
  by (auto simp: falls_def split: option.splits)

lemma falls_Inl: "falls loc r = Inl out \<Longrightarrow> out = Panicked"
  by (auto simp: falls_def split: option.splits)

lemma jumps_Inr: "jumps r = Inr (w', fl) \<Longrightarrow> \<exists>l. r = Some (w', l)"
  by (auto simp: jumps_def split: option.splits)

lemma jumps_Inl: "jumps r = Inl out \<Longrightarrow> out = Panicked"
  by (auto simp: jumps_def split: option.splits)


lemmas shape_dests =
  op3_shape op2_shape op_Adtk_shape op_Call_shape op_CalT_shape op_misc_shape op_alloc_shape
  op_Mkst_shape op_Mkmp_shape dofn_leave_shape store_shape push_shape

lemma exec_Inr_shape:
  assumes sub: "\<And>w1 v1 l1. keeps w1 (sub w1 v1 l1)"
    and ex: "exec h sub w v loc op = Inr (w', fl)"
  shows "shape w' = shape w"
proof (cases "Opcode op")
  case Dofn
  with ex obtain w1 lhs w2 where e: "dofn_enter w v (Args op) = Some (w1, lhs)"
    and s: "sub w1 (Mc lhs) (LocToCall lhs) = Finished w2"
    and l: "dofn_leave w2 v (Args op) lhs = Some w'"
    by (auto simp: exec_def Let_def split: option.splits outcome.splits dest!: falls_Inr)
  from sub [of w1 "Mc lhs" "LocToCall lhs"] s have "shape w2 = shape w1"
    by (simp add: keeps_def)
  with e l show ?thesis
    by (auto dest!: dofn_enter_shape dofn_leave_shape)
next
  case QlnT
  with ex show ?thesis
    by (auto simp: exec_def Let_def split: option.splits bind_splits dest!: branch_same)
next
  case Ret
  with ex show ?thesis
    by (auto simp: exec_def Let_def shape_update split: option.splits if_splits)
next
  case Untk
  with ex show ?thesis
    by (auto simp: exec_def Let_def split: option.splits if_splits bind_splits dest!: jumps_Inr push_shape)
qed (use ex in \<open>auto simp: exec_def Let_def split: bind_splits dest!: falls_Inr jumps_Inr branch_same shape_dests\<close>)


lemma exec_Inl_keeps:
  assumes sub: "\<And>w1 v1 l1. keeps w1 (sub w1 v1 l1)"
    and ex: "exec h sub w v loc op = Inl out"
  shows "keeps w out"
proof (cases "Opcode op")
  case Dofn
  show ?thesis
  proof (cases out)
    case Panicked
    then show ?thesis by (simp add: keeps_def)
  next
    case (OutOfFuel w2)
    with ex Dofn obtain w1 lhs where e: "dofn_enter w v (Args op) = Some (w1, lhs)"
      and s: "sub w1 (Mc lhs) (LocToCall lhs) = OutOfFuel w2"
      by (auto simp: exec_def Let_def split: option.splits outcome.splits dest!: falls_Inl)
    from sub [of w1 "Mc lhs" "LocToCall lhs"] s have "shape w2 = shape w1"
      by (simp add: keeps_def)
    with e OutOfFuel show ?thesis
      by (auto simp: keeps_def dest!: dofn_enter_shape)
  next
    case (Finished w2)
    with ex Dofn show ?thesis
      by (auto simp: exec_def Let_def split: option.splits outcome.splits dest!: falls_Inl)
  qed
qed (use ex in \<open>auto simp: exec_def Let_def keeps_def split: option.splits if_splits dest!: falls_Inl jumps_Inl\<close>)

lemma iteration_Inr_shape:
  assumes "\<And>w1 v1 l1. keeps w1 (sub w1 v1 l1)"
    and "iteration h sub w v loc = Inr (w', l)"
  shows "shape w' = shape w"
  using assms(2) exec_Inr_shape [OF assms(1)]
  by (auto simp: iteration_def split: option.splits sum.splits flow.splits)

lemma iteration_Inl_keeps:
  assumes "\<And>w1 v1 l1. keeps w1 (sub w1 v1 l1)"
    and "iteration h sub w v loc = Inl out"
  shows "keeps w out"
  using assms(2) exec_Inl_keeps [OF assms(1)] exec_Inr_shape [OF assms(1)]
  by (auto simp: iteration_def keeps_def split: option.splits sum.splits flow.splits)

lemma keeps_trans: "shape w1 = shape w \<Longrightarrow> keeps w1 out \<Longrightarrow> keeps w out"
  by (cases out) (simp_all add: keeps_def)

lemma run_keeps: "keeps w (run n h w v loc)"
proof (induction n arbitrary: w v loc)
  case 0
  show ?case by (simp add: keeps_def)
next
  case (Suc n)
  have sub: "\<And>w1 v1 l1. keeps w1 (run n h w1 v1 l1)"
    by (rule Suc.IH)
  show ?case
  proof (cases "iteration h (run n h) w v loc")
    case (Inl out)
    have "keeps w out"
      using sub Inl by (rule iteration_Inl_keeps)
    with Inl show ?thesis by simp
  next
    case (Inr p)
    obtain w' l where p: "p = (w', l)" by (cases p)
    have "shape w' = shape w"
      using sub Inr [unfolded p] by (rule iteration_Inr_shape)
    then have "keeps w (run n h w' v l)"
      using sub [of w' v l] by (rule keeps_trans)
    with Inr p show ?thesis by simp
  qed
qed

text \<open>
  C10. \<open>Run\<close> never changes the length of a register file: whenever a run from any
  location of any program has stores to show, because it returned or because the fuel ran
  out at some round (so at every moment of the execution, nested runs of \<open>Dofn\<close>
  included), every machine has as many registers as at the start.
\<close>

theorem Run_keeps_register_file_lengths:
  "stores (run n h w v loc) = Some w'
   \<Longrightarrow> map (\<lambda>m. length (Mem m)) (vms w') = map (\<lambda>m. length (Mem m)) (vms w)"
  using run_keeps [of w n h v loc]
  by (auto simp: keeps_def shape_def stores_def split: outcome.splits)

theorem Run_keeps_register_file_lengths_witness:
  "(\<exists>w'. stores (run 6 nullHost closureWorld 0 0) = Some w'
         \<and> map (\<lambda>m. length (Mem m)) (vms w') = [8, 7])
   \<and> map (\<lambda>m. length (Mem m)) (vms closureWorld) = [8, 7]"
proof -
  obtain w' where w': "stores (run 6 nullHost closureWorld 0 0) = Some w'"
    by (simp add: closureWorld_def run_defs op_Mkfn_def dofn_enter_def dofn_leave_def
        copy_captures_def stores_def)
  have "map (\<lambda>m. length (Mem m)) (vms closureWorld) = [8, 7]"
    by (simp add: closureWorld_def CONSTANTS_def)
  with Run_keeps_register_file_lengths [OF w'] w' show ?thesis
    by auto
qed

end
